theory Spec2Isabelle
  imports Main "HOL-Library.Word"
begin

section \<open>Wyoming protocol gateway of the Chatterbox TTS API\<close>

text \<open>
  A shallow embedding of \<^verbatim>\<open>app/core/wyoming_server.py\<close>. Python integers are \<open>int\<close>,
  \<^verbatim>\<open>bytes\<close> are lists of 8-bit words, \<^verbatim>\<open>Optional[str]\<close> is \<open>string option\<close>, and a
  Python exception is the left summand of a result.
\<close>

type_synonym byte = "8 word"
type_synonym bytes = "byte list"

text \<open>The classes of the exceptions the module's functions can raise.\<close>

datatype exn =
    ModelException string   \<comment> \<open>anything raised by \<^verbatim>\<open>model.generate\<close>\<close>
  | WaveError               \<comment> \<open>\<^verbatim>\<open>wave.Error\<close>\<close>
  | StructError             \<comment> \<open>\<^verbatim>\<open>struct.error\<close>\<close>
  | EOFError
  | RuntimeError
  | TypeError

text \<open>Sequencing: the statements after one that raises are not executed.\<close>

fun then_do :: "exn + 'a \<Rightarrow> ('a \<Rightarrow> exn + 'b) \<Rightarrow> exn + 'b" where
  "then_do (Inl e) f = Inl e"
| "then_do (Inr x) f = f x"

subsection \<open>Configuration\<close>

record WyomingConfig =
  host :: string
  port :: int
  default_voice :: string
  sample_rate :: int
  sample_width :: int
  channels :: int

text \<open>The dataclass defaults; \<^verbatim>\<open>start_wyoming_server\<close> overrides the first three only.\<close>

definition WyomingConfig_init :: "string \<Rightarrow> int \<Rightarrow> string \<Rightarrow> WyomingConfig" where
  "WyomingConfig_init h p dv =
     \<lparr>host = h, port = p, default_voice = dv,
      sample_rate = 24000, sample_width = 2, channels = 1\<rparr>"

text \<open>
  \<^verbatim>\<open>app.config.Config\<close> is not part of the module: the four attributes the module reads
  are a parameter. The generation parameters are only handed on to the model, so their
  type is left open.
\<close>

record 'p Config =
  VOICE_SAMPLE_PATH :: string
  EXAGGERATION :: 'p
  CFG_WEIGHT :: 'p
  TEMPERATURE :: 'p

subsection \<open>The voice library as the module sees it\<close>

text \<open>
  \<^verbatim>\<open>get_voice_library()\<close> returns an object of which the module calls three methods.
  A library state is given by what they return.
\<close>

record voice_entry =
  entry_name :: string

record voice_library =
  get_default_voice :: "string option"
  get_voice_path :: "string \<Rightarrow> string option"
  list_voices :: "voice_entry list"

text \<open>Python truthiness of an \<^verbatim>\<open>Optional[str]\<close>: \<^verbatim>\<open>None\<close> and \<^verbatim>\<open>""\<close> are false.\<close>

fun truthy :: "string option \<Rightarrow> bool" where
  "truthy None = False"
| "truthy (Some s) = (s \<noteq> [])"

definition resolve_voice_path ::
  "voice_library \<Rightarrow> 'p Config \<Rightarrow> string option \<Rightarrow> string" where
  "resolve_voice_path lib cfg voice_name =
     (if \<not> truthy voice_name \<or> voice_name = Some ''default'' then
        (let default_voice = get_default_voice lib in
         if truthy default_voice then
           (let voice_path = get_voice_path lib (the default_voice) in
            if truthy voice_path then the voice_path
            else VOICE_SAMPLE_PATH cfg)
         else VOICE_SAMPLE_PATH cfg)
      else
        \<comment> \<open>here \<open>voice_name\<close> is \<open>Some\<close> of a non-empty string\<close>
        (let voice_path = get_voice_path lib (the voice_name) in
         if truthy voice_path then the voice_path
         else VOICE_SAMPLE_PATH cfg))"

subsection \<open>Capability description\<close>

text \<open>
  The dataclasses of \<^verbatim>\<open>wyoming.info\<close> are external. A dataclass constructor raises
  \<^verbatim>\<open>TypeError\<close> when a field that has no default is not passed. A keyword argument is
  \<open>Some v\<close> when the call passes \<open>v\<close> and \<open>None\<close> when the call leaves it out.
  \<^verbatim>\<open>TtsVoice\<close> has the fields \<^verbatim>\<open>name\<close>, \<^verbatim>\<open>attribution\<close>, \<^verbatim>\<open>installed\<close>,
  \<^verbatim>\<open>description\<close> and \<^verbatim>\<open>languages\<close> without default, \<^verbatim>\<open>TtsProgram\<close> the fields
  \<^verbatim>\<open>name\<close>, \<^verbatim>\<open>attribution\<close>, \<^verbatim>\<open>installed\<close>, \<^verbatim>\<open>description\<close> and \<^verbatim>\<open>voices\<close>
  (releases from 1.5 on add \<^verbatim>\<open>version\<close> to both, which here would only add a further
  way to raise).
\<close>

record Attribution =
  attr_name :: string
  attr_url :: string

record TtsVoice =
  voice_name :: string
  voice_attribution :: Attribution
  voice_installed :: bool
  voice_description :: string
  voice_languages :: "string list"

record TtsProgram =
  prog_name :: string
  prog_attribution :: Attribution
  prog_installed :: bool
  prog_description :: string
  prog_voices :: "TtsVoice list"

record Info =
  tts :: "TtsProgram list"

definition TtsVoice_init ::
  "string option \<Rightarrow> Attribution option \<Rightarrow> bool option \<Rightarrow> string option
   \<Rightarrow> string list option \<Rightarrow> exn + TtsVoice" where
  "TtsVoice_init name attribution installed description languages =
     (case (name, attribution, installed, description, languages) of
        (Some n, Some a, Some i, Some d, Some l) \<Rightarrow>
          Inr \<lparr>voice_name = n, voice_attribution = a, voice_installed = i,
               voice_description = d, voice_languages = l\<rparr>
      | _ \<Rightarrow> Inl TypeError)"

definition TtsProgram_init ::
  "string option \<Rightarrow> Attribution option \<Rightarrow> bool option \<Rightarrow> string option
   \<Rightarrow> TtsVoice list option \<Rightarrow> exn + TtsProgram" where
  "TtsProgram_init name attribution installed description voices =
     (case (name, attribution, installed, description, voices) of
        (Some n, Some a, Some i, Some d, Some vs) \<Rightarrow>
          Inr \<lparr>prog_name = n, prog_attribution = a, prog_installed = i,
               prog_description = d, prog_voices = vs\<rparr>
      | _ \<Rightarrow> Inl TypeError)"

text \<open>The loop of \<^verbatim>\<open>_create_info\<close> over the voices of the library.\<close>

fun add_library_voices :: "voice_entry list \<Rightarrow> TtsVoice list \<Rightarrow> exn + TtsVoice list" where
  "add_library_voices [] wyoming_voices = Inr wyoming_voices"
| "add_library_voices (voice # voices) wyoming_voices =
     then_do
       (TtsVoice_init (Some (entry_name voice)) None (Some True)
          (Some (''Custom voice: '' @ entry_name voice)) None)
       (\<lambda>v. add_library_voices voices (wyoming_voices @ [v]))"

definition create_info :: "voice_library \<Rightarrow> exn + Info" where
  "create_info voice_library =
     (let voices = list_voices voice_library;
          wyoming_voices = []
      in then_do
           (TtsVoice_init (Some ''default'') None (Some True)
              (Some ''Default Chatterbox voice'') None)
           (\<lambda>v.
         then_do (add_library_voices voices (wyoming_voices @ [v])) (\<lambda>wyoming_voices.
         then_do
           (TtsProgram_init (Some ''chatterbox-tts'')
              (Some \<lparr>attr_name = ''Resemble AI'',
                     attr_url = ''https://github.com/resemble-ai/chatterbox''\<rparr>)
              (Some True) (Some ''Chatterbox TTS - High quality voice cloning'')
              (Some wyoming_voices))
           (\<lambda>tts. Inr \<lparr>tts = [tts]\<rparr>))))"

section \<open>The WAV container: Python's \<^verbatim>\<open>wave\<close> module\<close>

text \<open>
  The handler packs the model's samples with \<^verbatim>\<open>wave.open(buffer, 'wb')\<close> and unpacks
  them again with \<^verbatim>\<open>wave.open(io.BytesIO(audio_data), 'rb')\<close>. What these calls do is fixed
  by the standard library (\<^verbatim>\<open>Lib/wave.py\<close>, Python 3.11): the classes
  \<^verbatim>\<open>Wave_write\<close>, \<^verbatim>\<open>_Chunk\<close> and \<^verbatim>\<open>Wave_read\<close>
  are embedded method by method, on a little-endian host (no byte swap).
\<close>

subsection \<open>\<^verbatim>\<open>struct.pack\<close> and \<^verbatim>\<open>struct.unpack\<close>, little endian\<close>

text \<open>
  \<open>le_bytes k n\<close> are the \<open>k\<close> low bytes of \<open>n\<close>, lowest first; \<open>pack_L\<close> and
  \<open>pack_H\<close> are the formats \<^verbatim>\<open><L\<close> and \<^verbatim>\<open><H\<close>, which raise
  \<^verbatim>\<open>struct.error\<close> outside 32 and 16 unsigned bits.
\<close>

fun le_bytes :: "nat \<Rightarrow> int \<Rightarrow> bytes" where
  "le_bytes 0 n = []"
| "le_bytes (Suc k) n = word_of_int (n mod 256) # le_bytes k (n div 256)"

fun le_int :: "bytes \<Rightarrow> int" where
  "le_int [] = 0"
| "le_int (b # bs) = uint b + 256 * le_int bs"

definition pack_L :: "int \<Rightarrow> exn + bytes" where
  "pack_L n = (if 0 \<le> n \<and> n < 2 ^ 32 then Inr (le_bytes 4 n) else Inl StructError)"

definition pack_H :: "int \<Rightarrow> exn + bytes" where
  "pack_H n = (if 0 \<le> n \<and> n < 2 ^ 16 then Inr (le_bytes 2 n) else Inl StructError)"

definition RIFF :: bytes where "RIFF = [0x52, 0x49, 0x46, 0x46]"
definition WAVE :: bytes where "WAVE = [0x57, 0x41, 0x56, 0x45]"
definition fmt_id :: bytes where "fmt_id = [0x66, 0x6D, 0x74, 0x20]"
definition data_id :: bytes where "data_id = [0x64, 0x61, 0x74, 0x61]"

definition WAVE_FORMAT_PCM :: int where "WAVE_FORMAT_PCM = 1"

subsection \<open>\<^verbatim>\<open>Wave_write\<close>\<close>

text \<open>
  The file written to is a fresh \<^verbatim>\<open>BytesIO\<close>, always positioned at its end: its
  contents are \<open>ww_file\<close>. A method that raises returns \<open>Inl\<close>.
\<close>

record Wave_write =
  ww_file :: bytes
  ww_nchannels :: int
  ww_sampwidth :: int
  ww_framerate :: int
  ww_nframes :: int
  ww_nframeswritten :: int
  ww_datawritten :: int
  ww_datalength :: int
  ww_headerwritten :: bool
  ww_form_length_pos :: nat
  ww_data_length_pos :: nat

definition Wave_write_initfp :: Wave_write where
  "Wave_write_initfp =
     \<lparr>ww_file = [], ww_nchannels = 0, ww_sampwidth = 0, ww_framerate = 0, ww_nframes = 0,
      ww_nframeswritten = 0, ww_datawritten = 0, ww_datalength = 0,
      ww_headerwritten = False, ww_form_length_pos = 0, ww_data_length_pos = 0\<rparr>"

definition setnchannels :: "int \<Rightarrow> Wave_write \<Rightarrow> exn + Wave_write" where
  "setnchannels nchannels self =
     (if ww_datawritten self \<noteq> 0 then Inl WaveError
      else if nchannels < 1 then Inl WaveError
      else Inr (self\<lparr>ww_nchannels := nchannels\<rparr>))"

definition setsampwidth :: "int \<Rightarrow> Wave_write \<Rightarrow> exn + Wave_write" where
  "setsampwidth sampwidth self =
     (if ww_datawritten self \<noteq> 0 then Inl WaveError
      else if sampwidth < 1 \<or> sampwidth > 4 then Inl WaveError
      else Inr (self\<lparr>ww_sampwidth := sampwidth\<rparr>))"

definition setframerate :: "int \<Rightarrow> Wave_write \<Rightarrow> exn + Wave_write" where
  "setframerate framerate self =
     (if ww_datawritten self \<noteq> 0 then Inl WaveError
      else if framerate \<le> 0 then Inl WaveError
      else Inr (self\<lparr>ww_framerate := framerate\<rparr>))"

definition write_header :: "int \<Rightarrow> Wave_write \<Rightarrow> exn + Wave_write" where
  "write_header initlength self =
     (let file1 = ww_file self @ RIFF;
          nframes = (if ww_nframes self = 0
                     then initlength div (ww_nchannels self * ww_sampwidth self)
                     else ww_nframes self);
          datalength = nframes * ww_nchannels self * ww_sampwidth self;
          form_length_pos = length file1
      in then_do (pack_L (36 + datalength)) (\<lambda>b1.
         then_do (pack_L 16) (\<lambda>b2.
         then_do (pack_H WAVE_FORMAT_PCM) (\<lambda>b3.
         then_do (pack_H (ww_nchannels self)) (\<lambda>b4.
         then_do (pack_L (ww_framerate self)) (\<lambda>b5.
         then_do (pack_L (ww_nchannels self * ww_framerate self * ww_sampwidth self)) (\<lambda>b6.
         then_do (pack_H (ww_nchannels self * ww_sampwidth self)) (\<lambda>b7.
         then_do (pack_H (ww_sampwidth self * 8)) (\<lambda>b8.
           let file2 = file1 @ b1 @ WAVE @ fmt_id @ b2 @ b3 @ b4 @ b5 @ b6 @ b7 @ b8 @ data_id;
               data_length_pos = length file2
           in then_do (pack_L datalength) (\<lambda>b9.
              Inr (self\<lparr>ww_file := file2 @ b9, ww_nframes := nframes,
                        ww_datalength := datalength, ww_headerwritten := True,
                        ww_form_length_pos := form_length_pos,
                        ww_data_length_pos := data_length_pos\<rparr>)))))))))))"

definition ensure_header_written :: "int \<Rightarrow> Wave_write \<Rightarrow> exn + Wave_write" where
  "ensure_header_written datasize self =
     (if \<not> ww_headerwritten self then
        if ww_nchannels self = 0 then Inl WaveError
        else if ww_sampwidth self = 0 then Inl WaveError
        else if ww_framerate self = 0 then Inl WaveError
        else write_header datasize self
      else Inr self)"

text \<open>\<^verbatim>\<open>seek(pos, 0)\<close> followed by \<^verbatim>\<open>write(b)\<close> on a \<^verbatim>\<open>BytesIO\<close>.\<close>

definition write_at :: "bytes \<Rightarrow> nat \<Rightarrow> bytes \<Rightarrow> bytes" where
  "write_at file pos b =
     take pos file @ replicate (pos - length file) 0 @ b @ drop (pos + length b) file"

definition patchheader :: "Wave_write \<Rightarrow> exn + Wave_write" where
  "patchheader self =
     (if ww_datawritten self = ww_datalength self then Inr self
      else then_do (pack_L (36 + ww_datawritten self)) (\<lambda>b1.
           let file1 = write_at (ww_file self) (ww_form_length_pos self) b1
           in then_do (pack_L (ww_datawritten self)) (\<lambda>b2.
              Inr (self\<lparr>ww_file := write_at file1 (ww_data_length_pos self) b2,
                        ww_datalength := ww_datawritten self\<rparr>))))"

definition writeframesraw :: "bytes \<Rightarrow> Wave_write \<Rightarrow> exn + Wave_write" where
  "writeframesraw data self =
     then_do (ensure_header_written (int (length data)) self) (\<lambda>self.
       let nframes = int (length data) div (ww_sampwidth self * ww_nchannels self)
       in Inr (self\<lparr>ww_file := ww_file self @ data,
                    ww_datawritten := ww_datawritten self + int (length data),
                    ww_nframeswritten := ww_nframeswritten self + nframes\<rparr>))"

definition writeframes :: "bytes \<Rightarrow> Wave_write \<Rightarrow> exn + Wave_write" where
  "writeframes data self =
     then_do (writeframesraw data self) (\<lambda>self.
       if ww_datalength self \<noteq> ww_datawritten self then patchheader self else Inr self)"

definition Wave_write_close :: "Wave_write \<Rightarrow> exn + Wave_write" where
  "Wave_write_close self =
     then_do (ensure_header_written 0 self) (\<lambda>self.
       if ww_datalength self \<noteq> ww_datawritten self then patchheader self else Inr self)"

subsection \<open>\<^verbatim>\<open>BytesIO\<close> and \<^verbatim>\<open>_Chunk\<close>, for reading\<close>

text \<open>
  A \<^verbatim>\<open>_Chunk\<close> reads from a file object that is a \<^verbatim>\<open>BytesIO\<close> (for the RIFF
  chunk) or another chunk (for the chunks inside it), so its methods take the methods
  of the file below as arguments. \<open>set_pos\<close> is the assignment of
  \<^verbatim>\<open>self.file\<close>'s new state and \<^verbatim>\<open>self.size_read\<close>.
\<close>

record BytesIO =
  bio_buf :: bytes
  bio_pos :: nat

definition BytesIO_read :: "BytesIO \<Rightarrow> nat \<Rightarrow> bytes \<times> BytesIO" where
  "BytesIO_read f n =
     (let data = take n (drop (bio_pos f) (bio_buf f))
      in (data, f\<lparr>bio_pos := bio_pos f + length data\<rparr>))"

definition BytesIO_tell :: "BytesIO \<Rightarrow> nat" where
  "BytesIO_tell f = bio_pos f"

definition BytesIO_seek :: "BytesIO \<Rightarrow> nat \<Rightarrow> BytesIO" where
  "BytesIO_seek f pos = f\<lparr>bio_pos := pos\<rparr>"

datatype 'f Chunk =
  Chunk (chunk_file: 'f) (chunkname: bytes) (chunksize: nat) (size_read: nat)
    (chunk_offset: nat)

definition set_pos :: "'f Chunk \<Rightarrow> 'f \<Rightarrow> nat \<Rightarrow> 'f Chunk" where
  "set_pos self file1 n =
     Chunk file1 (chunkname self) (chunksize self) n (chunk_offset self)"

definition Chunk_init ::
  "('f \<Rightarrow> nat \<Rightarrow> bytes \<times> 'f) \<Rightarrow> ('f \<Rightarrow> nat) \<Rightarrow> 'f \<Rightarrow> exn + 'f Chunk" where
  "Chunk_init file_read file_tell file =
     (let (name, file1) = file_read file 4 in
      if length name < 4 then Inl EOFError
      else let (sz, file2) = file_read file1 4 in
        if length sz < 4 then Inl EOFError
        else Inr (Chunk file2 name (nat (le_int sz)) 0 (file_tell file2)))"

definition Chunk_tell :: "'f Chunk \<Rightarrow> nat" where
  "Chunk_tell self = size_read self"

definition Chunk_read ::
  "('f \<Rightarrow> nat \<Rightarrow> bytes \<times> 'f) \<Rightarrow> 'f Chunk \<Rightarrow> nat \<Rightarrow> bytes \<times> 'f Chunk" where
  "Chunk_read file_read self n =
     (if size_read self \<ge> chunksize self then ([], self)
      else
        let n = (if n > chunksize self - size_read self
                 then chunksize self - size_read self else n);
            (data, file1) = file_read (chunk_file self) n;
            size_read1 = size_read self + length data
        in if size_read1 = chunksize self \<and> odd (chunksize self) then
             (let (dummy, file2) = file_read file1 1
              in (data, set_pos self file2 (size_read1 + length dummy)))
           else (data, set_pos self file1 size_read1))"

text \<open>\<^verbatim>\<open>seek(n, 1)\<close>, on a chunk whose file seeks to absolute positions.\<close>

definition Chunk_seek_cur ::
  "('f \<Rightarrow> nat \<Rightarrow> 'f) \<Rightarrow> 'f Chunk \<Rightarrow> int \<Rightarrow> exn + 'f Chunk" where
  "Chunk_seek_cur file_seek self n =
     (let pos = n + int (size_read self) in
      if pos < 0 \<or> pos > int (chunksize self) then Inl RuntimeError
      else Inr (set_pos self (file_seek (chunk_file self) (chunk_offset self + nat pos))
                  (nat pos)))"

definition Chunk_skip ::
  "('f \<Rightarrow> int \<Rightarrow> exn + 'f) \<Rightarrow> 'f Chunk \<Rightarrow> exn + 'f Chunk" where
  "Chunk_skip file_seek_cur self =
     (let n = int (chunksize self) - int (size_read self);
          n = (if odd (chunksize self) then n + 1 else n)
      in then_do (file_seek_cur (chunk_file self) n) (\<lambda>file1.
           Inr (set_pos self file1 (nat (int (size_read self) + n)))))"

subsection \<open>\<^verbatim>\<open>Wave_read\<close>\<close>

type_synonym riff_chunk = "BytesIO Chunk"
type_synonym sub_chunk = "BytesIO Chunk Chunk"

record wave_fmt =
  rd_nchannels :: int
  rd_framerate :: int
  rd_sampwidth :: int
  rd_framesize :: int

definition riff_read :: "riff_chunk \<Rightarrow> nat \<Rightarrow> bytes \<times> riff_chunk" where
  "riff_read = Chunk_read BytesIO_read"

definition riff_seek_cur :: "riff_chunk \<Rightarrow> int \<Rightarrow> exn + riff_chunk" where
  "riff_seek_cur = Chunk_seek_cur BytesIO_seek"

definition read_fmt_chunk :: "sub_chunk \<Rightarrow> exn + wave_fmt \<times> sub_chunk" where
  "read_fmt_chunk chunk =
     (let (b14, chunk1) = Chunk_read riff_read chunk 14 in
      if length b14 < 14 then Inl EOFError
      else
        let wFormatTag = le_int (take 2 b14);
            nchannels = le_int (take 2 (drop 2 b14));
            framerate = le_int (take 4 (drop 4 b14))
        in if wFormatTag = WAVE_FORMAT_PCM then
             (let (b2, chunk2) = Chunk_read riff_read chunk1 2 in
              if length b2 < 2 then Inl EOFError
              else
                let sampwidth = (le_int b2 + 7) div 8 in
                if sampwidth = 0 then Inl WaveError
                else if nchannels = 0 then Inl WaveError
                else Inr (\<lparr>rd_nchannels = nchannels, rd_framerate = framerate,
                           rd_sampwidth = sampwidth,
                           rd_framesize = nchannels * sampwidth\<rparr>, chunk2))
           else Inl WaveError)"

text \<open>
  The loop of \<^verbatim>\<open>Wave_read.initfp\<close> over the chunks inside the RIFF chunk. It ends at
  the data chunk, or when no further chunk header can be read: then the data chunk is
  missing and \<^verbatim>\<open>wave.Error\<close> is raised. Each round reads eight bytes of the RIFF
  chunk at least, which is why it terminates.
\<close>

function read_chunks :: "riff_chunk \<Rightarrow> wave_fmt option \<Rightarrow> exn + wave_fmt \<times> sub_chunk" where
  "read_chunks riff fmt =
     (case Chunk_init riff_read Chunk_tell riff of
        Inl e \<Rightarrow>
          \<comment> \<open>\<^verbatim>\<open>except EOFError: break\<close>, and after the loop no data chunk is set\<close>
          if e = EOFError then Inl WaveError else Inl e
      | Inr chunk \<Rightarrow>
          if chunkname chunk = fmt_id then
            (case read_fmt_chunk chunk of
               Inl e \<Rightarrow> Inl e
             | Inr (fmt1, chunk1) \<Rightarrow>
                 (case Chunk_skip riff_seek_cur chunk1 of
                    Inl e \<Rightarrow> Inl e
                  | Inr chunk2 \<Rightarrow> read_chunks (chunk_file chunk2) (Some fmt1)))
          else if chunkname chunk = data_id then
            (case fmt of
               None \<Rightarrow> Inl WaveError
             | Some f \<Rightarrow> Inr (f, chunk))
          else
            (case Chunk_skip riff_seek_cur chunk of
               Inl e \<Rightarrow> Inl e
             | Inr chunk2 \<Rightarrow> read_chunks (chunk_file chunk2) fmt))"
  by pat_completeness auto

lemma BytesIO_read_length: "BytesIO_read f n = (d, f') \<Longrightarrow> length d \<le> n"
  by (auto simp: BytesIO_read_def Let_def)

lemma riff_read_facts:
  assumes "riff_read f n = (d, f')"
  shows "chunksize f' = chunksize f" and "size_read f + length d \<le> size_read f'"
    and "length d \<le> n" and "d \<noteq> [] \<Longrightarrow> size_read f + length d \<le> chunksize f"
  using assms
  by (auto simp: riff_read_def Chunk_read_def Let_def set_pos_def
      split: if_splits prod.splits dest: BytesIO_read_length)

lemma Chunk_init_riff_facts:
  assumes "Chunk_init riff_read Chunk_tell f = Inr c"
  shows "chunksize (chunk_file c) = chunksize f"
    and "size_read f + 8 \<le> size_read (chunk_file c)"
    and "size_read c = 0"
proof -
  obtain nm f1 where r1: "riff_read f 4 = (nm, f1)" by (cases "riff_read f 4")
  obtain sz f2 where r2: "riff_read f1 4 = (sz, f2)" by (cases "riff_read f1 4")
  from assms r1 r2 have len: "length nm = 4" "length sz = 4" and c: "chunk_file c = f2" "size_read c = 0"
    using riff_read_facts(3)[OF r1] riff_read_facts(3)[OF r2]
    by (auto simp: Chunk_init_def Let_def split: if_splits)
  from riff_read_facts(1,2)[OF r1] riff_read_facts(1,2)[OF r2] len c
  show "chunksize (chunk_file c) = chunksize f"
    and "size_read f + 8 \<le> size_read (chunk_file c)"
    and "size_read c = 0" by auto
qed

text \<open>A chunk has read at most its size, and one padding byte when the size is odd.\<close>

definition within :: "'f Chunk \<Rightarrow> bool" where
  "within c \<longleftrightarrow> size_read c \<le> chunksize c
     \<or> (odd (chunksize c) \<and> size_read c = chunksize c + 1)"

lemma sub_read_facts:
  assumes "Chunk_read riff_read c n = (d, c')"
  shows "chunksize (chunk_file c') = chunksize (chunk_file c)"
    and "size_read (chunk_file c) \<le> size_read (chunk_file c')"
    and "chunksize c' = chunksize c"
    and "within c \<Longrightarrow> within c'"
proof -
  define m where "m = (if n > chunksize c - size_read c then chunksize c - size_read c else n)"
  obtain d1 f1 where r1: "riff_read (chunk_file c) m = (d1, f1)"
    by (cases "riff_read (chunk_file c) m")
  obtain d2 f2 where r2: "riff_read f1 1 = (d2, f2)" by (cases "riff_read f1 1")
  note a1 = riff_read_facts(1-3)[OF r1]
  note a2 = riff_read_facts(1-3)[OF r2]
  have m: "m \<le> chunksize c - size_read c" by (simp add: m_def)
  consider (exhausted) "size_read c \<ge> chunksize c"
    | (pad) "size_read c < chunksize c" "size_read c + length d1 = chunksize c" "odd (chunksize c)"
    | (plain) "size_read c < chunksize c" "\<not> (size_read c + length d1 = chunksize c \<and> odd (chunksize c))"
    by fastforce
  then have "chunksize (chunk_file c') = chunksize (chunk_file c)
      \<and> size_read (chunk_file c) \<le> size_read (chunk_file c')
      \<and> chunksize c' = chunksize c \<and> (within c \<longrightarrow> within c')"
  proof cases
    case exhausted
    with assms have "c' = c" by (simp add: Chunk_read_def)
    then show ?thesis by simp
  next
    case pad
    with assms r1 r2 have "c' = set_pos c f2 (chunksize c + length d2)"
      by (simp add: Chunk_read_def Let_def m_def[symmetric])
    with a1 a2 show ?thesis by (auto simp: within_def set_pos_def pad le_Suc_eq)
  next
    case plain
    with assms r1 have "c' = set_pos c f1 (size_read c + length d1)"
      by (auto simp: Chunk_read_def Let_def m_def[symmetric])
    with a1 m plain show ?thesis by (auto simp: within_def set_pos_def)
  qed
  then show "chunksize (chunk_file c') = chunksize (chunk_file c)"
    and "size_read (chunk_file c) \<le> size_read (chunk_file c')"
    and "chunksize c' = chunksize c"
    and "within c \<Longrightarrow> within c'" by auto
qed

lemma read_fmt_chunk_facts:
  assumes "read_fmt_chunk c = Inr (fmt, c')"
  shows "chunksize (chunk_file c') = chunksize (chunk_file c)"
    and "size_read (chunk_file c) \<le> size_read (chunk_file c')"
    and "within c \<Longrightarrow> within c'"
proof -
  obtain b14 c1 where r1: "Chunk_read riff_read c 14 = (b14, c1)"
    by (cases "Chunk_read riff_read c 14")
  obtain b2 c2 where r2: "Chunk_read riff_read c1 2 = (b2, c2)"
    by (cases "Chunk_read riff_read c1 2")
  from assms r1 r2 have c': "c' = c2"
    by (auto simp: read_fmt_chunk_def Let_def split: if_splits)
  from sub_read_facts[OF r1] sub_read_facts[OF r2] c'
  show "chunksize (chunk_file c') = chunksize (chunk_file c)"
    and "size_read (chunk_file c) \<le> size_read (chunk_file c')"
    and "within c \<Longrightarrow> within c'" by auto
qed

lemma sub_skip_facts:
  assumes "Chunk_skip riff_seek_cur c = Inr c2" and "within c"
  shows "chunksize (chunk_file c2) = chunksize (chunk_file c)"
    and "size_read (chunk_file c) \<le> size_read (chunk_file c2)"
    and "size_read (chunk_file c2) \<le> chunksize (chunk_file c)"
proof -
  define n where "n = (if odd (chunksize c) then int (chunksize c) - int (size_read c) + 1
                       else int (chunksize c) - int (size_read c))"
  have n: "0 \<le> n" using assms(2) by (auto simp: within_def n_def)
  from assms(1) obtain f1 where f1: "riff_seek_cur (chunk_file c) n = Inr f1"
    and c2: "chunk_file c2 = f1"
    by (cases "riff_seek_cur (chunk_file c) n")
       (auto simp: Chunk_skip_def Let_def n_def set_pos_def split: if_splits)
  from f1 have le: "n + int (size_read (chunk_file c)) \<le> int (chunksize (chunk_file c))"
    and e: "f1 = set_pos (chunk_file c)
                   (BytesIO_seek (chunk_file (chunk_file c))
                      (chunk_offset (chunk_file c) + nat (n + int (size_read (chunk_file c)))))
                   (nat (n + int (size_read (chunk_file c))))"
    by (auto simp: riff_seek_cur_def Chunk_seek_cur_def Let_def split: if_splits)
  from le n show "chunksize (chunk_file c2) = chunksize (chunk_file c)"
    and "size_read (chunk_file c) \<le> size_read (chunk_file c2)"
    and "size_read (chunk_file c2) \<le> chunksize (chunk_file c)"
    unfolding c2 e by (auto simp: set_pos_def)
qed

termination read_chunks
proof (relation "measure (\<lambda>(f, fmt). chunksize f - size_read f)")
  show "wf (measure (\<lambda>(f, fmt). chunksize f - size_read f))" by simp
next
  fix f :: riff_chunk and fmt :: "wave_fmt option" and chunk x fmt1 chunk1 chunk2
  assume i: "Chunk_init riff_read Chunk_tell f = Inr chunk"
    and r: "read_fmt_chunk chunk = Inr x" and x: "(fmt1, chunk1) = x"
    and s: "Chunk_skip riff_seek_cur chunk1 = Inr chunk2"
  from r x have r': "read_fmt_chunk chunk = Inr (fmt1, chunk1)" by simp
  have w: "within chunk" using Chunk_init_riff_facts(3)[OF i] by (simp add: within_def)
  from Chunk_init_riff_facts(1,2)[OF i] read_fmt_chunk_facts[OF r']
    sub_skip_facts[OF s] w
  show "((chunk_file chunk2, Some fmt1), f, fmt)
        \<in> measure (\<lambda>(f, fmt). chunksize f - size_read f)"
    by auto
next
  fix f :: riff_chunk and fmt :: "wave_fmt option" and chunk chunk2
  assume i: "Chunk_init riff_read Chunk_tell f = Inr chunk"
    and s: "Chunk_skip riff_seek_cur chunk = Inr chunk2"
  have w: "within chunk" using Chunk_init_riff_facts(3)[OF i] by (simp add: within_def)
  from Chunk_init_riff_facts(1,2)[OF i] sub_skip_facts[OF s w]
  show "((chunk_file chunk2, fmt), f, fmt)
        \<in> measure (\<lambda>(f, fmt). chunksize f - size_read f)"
    by auto
qed

record Wave_read =
  wr_fmt :: wave_fmt
  wr_nframes :: int
  wr_data_chunk :: sub_chunk

definition Wave_read_initfp :: "BytesIO \<Rightarrow> exn + Wave_read" where
  "Wave_read_initfp file0 =
     then_do (Chunk_init BytesIO_read BytesIO_tell file0) (\<lambda>riff.
       if chunkname riff \<noteq> RIFF then Inl WaveError
       else
         let (form, riff1) = riff_read riff 4 in
         if form \<noteq> WAVE then Inl WaveError
         else then_do (read_chunks riff1 None) (\<lambda>(fmt, chunk).
           Inr \<lparr>wr_fmt = fmt,
                wr_nframes = int (chunksize chunk) div rd_framesize fmt,
                wr_data_chunk = chunk\<rparr>))"

definition readframes :: "Wave_read \<Rightarrow> int \<Rightarrow> bytes" where
  "readframes self nframes =
     (if nframes = 0 then []
      else
        let n = nframes * rd_framesize (wr_fmt self);
            chunk = wr_data_chunk self
        in fst (Chunk_read riff_read chunk
                  (if n < 0 then chunksize chunk - size_read chunk else nat n)))"

subsection \<open>The two uses of the module\<close>

text \<open>
  \<open>encode_wav\<close> is the \<^verbatim>\<open>with wave.open(buffer, 'wb')\<close> block of
  \<^verbatim>\<open>_generate_speech\<close> followed by \<^verbatim>\<open>buffer.getvalue()\<close>. An exception inside the
  block leaves through \<^verbatim>\<open>__exit__\<close>, whose \<^verbatim>\<open>close()\<close> raises again or returns:
  either way the block raises. \<open>decode_wav\<close> is the
  \<^verbatim>\<open>with wave.open(io.BytesIO(audio_data), 'rb')\<close> block of
  \<^verbatim>\<open>_create_audio_response\<close>; it returns \<open>(rate, width, channels, frames)\<close>.
\<close>

definition encode_wav :: "WyomingConfig \<Rightarrow> bytes \<Rightarrow> exn + bytes" where
  "encode_wav config audio =
     then_do (setnchannels (channels config) Wave_write_initfp) (\<lambda>wav_file.
     then_do (setsampwidth (sample_width config) wav_file) (\<lambda>wav_file.
     then_do (setframerate (sample_rate config) wav_file) (\<lambda>wav_file.
     then_do (writeframes audio wav_file) (\<lambda>wav_file.
     then_do (Wave_write_close wav_file) (\<lambda>wav_file.
       Inr (ww_file wav_file))))))"

definition decode_wav :: "bytes \<Rightarrow> exn + int \<times> int \<times> int \<times> bytes" where
  "decode_wav audio_data =
     then_do (Wave_read_initfp \<lparr>bio_buf = audio_data, bio_pos = 0\<rparr>) (\<lambda>wav_file.
       let rate = rd_framerate (wr_fmt wav_file);
           width = rd_sampwidth (wr_fmt wav_file);
           channels = rd_nchannels (wr_fmt wav_file);
           frames = readframes wav_file (wr_nframes wav_file)
       in Inr (rate, width, channels, frames))"

section \<open>The handler\<close>

subsection \<open>Events\<close>

record SynthesizeVoice =
  sv_name :: "string option"
  sv_language :: "string option"
  sv_speaker :: "string option"

record Synthesize =
  syn_text :: string
  syn_voice :: "SynthesizeVoice option"

text \<open>
  A Wyoming event, by its type. \<open>SynthesizeEvent\<close> is an event for which
  \<^verbatim>\<open>Synthesize.is_type\<close> holds, with what \<^verbatim>\<open>Synthesize.from_event\<close> reads from it;
  \<open>OtherEvent\<close> carries the type name of any other request (\<^verbatim>\<open>describe\<close> among
  them). The module constructs the three audio events; \<open>ErrorEvent\<close> is the protocol's
  error event (\<^verbatim>\<open>wyoming.error.Error\<close>), which the module neither imports nor
  constructs.
\<close>

datatype Event =
    SynthesizeEvent Synthesize
  | OtherEvent string
  | AudioStart (ev_rate: int) (ev_width: int) (ev_channels: int)
  | AudioChunk (ev_audio: bytes) (ev_rate: int) (ev_width: int) (ev_channels: int)
  | AudioStop
  | ErrorEvent string

subsection \<open>\<^verbatim>\<open>ChatterboxWyomingHandler\<close>\<close>

text \<open>
  The model is external: \<open>model text voice_sample_path exaggeration cfg_weight
  temperature\<close> is \<open>Inr b\<close> when \<^verbatim>\<open>model.generate\<close> returns an array whose
  \<^verbatim>\<open>tobytes()\<close> is \<open>b\<close>, and \<open>Inl e\<close> when the call (or \<^verbatim>\<open>tobytes\<close> on what it
  returned) raises \<open>e\<close>.
\<close>

type_synonym 'p tts_model = "string \<Rightarrow> string \<Rightarrow> 'p \<Rightarrow> 'p \<Rightarrow> 'p \<Rightarrow> exn + bytes"

definition generate_speech ::
  "WyomingConfig \<Rightarrow> 'p Config \<Rightarrow> 'p tts_model \<Rightarrow> string \<Rightarrow> string \<Rightarrow> exn + bytes" where
  "generate_speech config cfg model text voice_path =
     then_do (model text voice_path (EXAGGERATION cfg) (CFG_WEIGHT cfg) (TEMPERATURE cfg))
       (\<lambda>audio. encode_wav config audio)"

definition create_audio_response :: "bytes \<Rightarrow> exn + Event list" where
  "create_audio_response audio_data =
     then_do (decode_wav audio_data) (\<lambda>(rate, width, channels, frames).
       Inr [AudioStart rate width channels,
            AudioChunk frames rate width channels,
            AudioStop])"

text \<open>The voice name \<^verbatim>\<open>_handle_synthesize\<close> takes from the request.\<close>

definition requested_voice_name :: "Synthesize \<Rightarrow> string option" where
  "requested_voice_name synthesize =
     (case syn_voice synthesize of
        None \<Rightarrow> None
      | Some v \<Rightarrow> if truthy (sv_name v) then sv_name v else None)"

definition handle_synthesize ::
  "WyomingConfig \<Rightarrow> voice_library \<Rightarrow> 'p Config \<Rightarrow> 'p tts_model \<Rightarrow> Synthesize
   \<Rightarrow> exn + Event list" where
  "handle_synthesize config lib cfg model synthesize =
     (let text = syn_text synthesize;
          voice_name = requested_voice_name synthesize;
          voice_path = resolve_voice_path lib cfg voice_name
      in then_do (generate_speech config cfg model text voice_path) (\<lambda>audio_data.
           create_audio_response audio_data))"

fun handle_event ::
  "WyomingConfig \<Rightarrow> voice_library \<Rightarrow> 'p Config \<Rightarrow> 'p tts_model \<Rightarrow> Event
   \<Rightarrow> exn + Event list option" where
  "handle_event config lib cfg model (SynthesizeEvent synthesize) =
     then_do (handle_synthesize config lib cfg model synthesize) (\<lambda>events. Inr (Some events))"
| "handle_event config lib cfg model event = Inr None"

subsection \<open>\<^verbatim>\<open>ChatterboxWyomingServer\<close>\<close>

text \<open>
  The body of the constructor: it builds the description and hands it, with host and
  port, to the constructor of the base class \<^verbatim>\<open>AsyncServer\<close>, which is external and a
  parameter here.
\<close>

definition ChatterboxWyomingServer_init ::
  "(Info \<Rightarrow> string \<Rightarrow> int \<Rightarrow> exn + 'b) \<Rightarrow> WyomingConfig \<Rightarrow> voice_library
   \<Rightarrow> exn + WyomingConfig \<times> 'b" where
  "ChatterboxWyomingServer_init super_init config lib =
     then_do (create_info lib) (\<lambda>info.
     then_do (super_init info (host config) (port config)) (\<lambda>base.
       Inr (config, base)))"

subsection \<open>The shape of a response\<close>

fun is_start :: "Event \<Rightarrow> bool" where
  "is_start (AudioStart r w c) = True"
| "is_start e = False"

fun is_chunk :: "Event \<Rightarrow> bool" where
  "is_chunk (AudioChunk a r w c) = True"
| "is_chunk e = False"

fun is_stop :: "Event \<Rightarrow> bool" where
  "is_stop AudioStop = True"
| "is_stop e = False"

text \<open>The pattern \<open>start, chunk*, end\<close>.\<close>

definition start_chunks_stop :: "Event list \<Rightarrow> bool" where
  "start_chunks_stop evs =
     (case evs of
        [] \<Rightarrow> False
      | e # rest \<Rightarrow>
          is_start e \<and> rest \<noteq> [] \<and> list_all is_chunk (butlast rest) \<and> is_stop (last rest))"

section \<open>The voice registry's discovery\<close>

text \<open>
  Modelled from the spec: \<^verbatim>\<open>app/core/voice_library.py\<close> is not among the sources; only
  its tests are. A voice profile has the fields of the spec's data model. A directory
  entry is given by what discovery looks at: its filename stem, its extension, and
  whether the file passes structural validation. The registry keeps its profiles in
  insertion order.
\<close>

datatype voice_source = Uploaded | Discovered

record VoiceProfile =
  vp_name :: string
  vp_storage_path :: string
  vp_original_filename :: string
  vp_language :: string
  vp_source :: voice_source
  vp_added_at :: nat

record dir_entry =
  de_stem :: string
  de_extension :: string
  de_structurally_valid :: bool

record VoiceRegistry =
  voice_dir :: string
  profiles :: "VoiceProfile list"

record discovery =
  imported :: "string list"
  skipped :: "string list"

text \<open>Modelled from the spec: the names of \<^verbatim>\<open>list()\<close>, in order.\<close>

definition registry_names :: "VoiceRegistry \<Rightarrow> string list" where
  "registry_names reg = map vp_name (profiles reg)"

text \<open>
  Modelled from the spec: the record discovery registers for a file, with
  \<open>source = discovered\<close> and the storage path pointing at the file in place.
\<close>

definition discovered_profile :: "string \<Rightarrow> string \<Rightarrow> nat \<Rightarrow> dir_entry \<Rightarrow> VoiceProfile" where
  "discovered_profile dir default_language now f =
     \<lparr>vp_name = de_stem f,
      vp_storage_path = dir @ ''/'' @ de_stem f @ ''.'' @ de_extension f,
      vp_original_filename = de_stem f @ ''.'' @ de_extension f,
      vp_language = default_language,
      vp_source = Discovered,
      vp_added_at = now\<rparr>"

text \<open>
  Modelled from the spec: \<^verbatim>\<open>discover_and_import\<close>. The scan goes through the entries of
  the voice directory; an entry whose extension is not in the recognized set \<open>exts\<close> is
  passed over; one whose derived name is already in the registry is left out of both
  lists; one that fails structural validation is reported in \<open>skipped\<close>; any other is
  registered and reported in \<open>imported\<close>.
\<close>

fun discover_scan ::
  "string list \<Rightarrow> string \<Rightarrow> nat \<Rightarrow> dir_entry list \<Rightarrow> VoiceRegistry \<Rightarrow> discovery
   \<Rightarrow> VoiceRegistry \<times> discovery" where
  "discover_scan exts default_language now [] reg res = (reg, res)"
| "discover_scan exts default_language now (f # fs) reg res =
     (if de_extension f \<notin> set exts then
        discover_scan exts default_language now fs reg res
      else if de_stem f \<in> set (registry_names reg) then
        discover_scan exts default_language now fs reg res
      else if \<not> de_structurally_valid f then
        discover_scan exts default_language now fs reg
          (res\<lparr>skipped := skipped res @ [de_stem f]\<rparr>)
      else
        discover_scan exts default_language now fs
          (reg\<lparr>profiles := profiles reg
                   @ [discovered_profile (voice_dir reg) default_language now f]\<rparr>)
          (res\<lparr>imported := imported res @ [de_stem f]\<rparr>))"

definition discover_and_import ::
  "string list \<Rightarrow> string \<Rightarrow> nat \<Rightarrow> dir_entry list \<Rightarrow> VoiceRegistry
   \<Rightarrow> VoiceRegistry \<times> discovery" where
  "discover_and_import exts default_language now files reg =
     discover_scan exts default_language now files reg \<lparr>imported = [], skipped = []\<rparr>"

text \<open>
  Modelled from the spec: two runs of discovery over the same directory listing, the
  second on the registry the first one left.
\<close>

definition second_discovery ::
  "string list \<Rightarrow> string \<Rightarrow> nat \<Rightarrow> nat \<Rightarrow> dir_entry list \<Rightarrow> VoiceRegistry
   \<Rightarrow> VoiceRegistry \<times> discovery" where
  "second_discovery exts default_language t1 t2 files reg =
     discover_and_import exts default_language t2 files
       (fst (discover_and_import exts default_language t1 files reg))"

section \<open>Properties of the container\<close>

text \<open>
  \<open>valid_format r w c\<close>: the format triple that \<^verbatim>\<open>Wave_write\<close> accepts and whose header
  fields fit: one to four bytes per sample, at least one channel, a positive rate, and
  the channel count, the rate, the byte rate \<open>c * r * w\<close> and the block size \<open>c * w\<close>
  within their unsigned 16 or 32 bits. \<open>wav_header\<close> is the 44-byte header of a container
  with \<open>n\<close> bytes of frames.
\<close>

declare read_chunks.simps [simp del]

lemma length_le_bytes: "length (le_bytes k n) = k"
  by (induction k arbitrary: n) auto

lemma le_int_le_bytes: "0 \<le> n \<Longrightarrow> n < 256 ^ k \<Longrightarrow> le_int (le_bytes k n) = n"
proof (induction k arbitrary: n)
  case 0
  then show ?case by simp
next
  case (Suc k)
  have "n div 256 < 256 ^ k" using Suc.prems by (simp add: div_less_iff_less_mult mult.commute)
  moreover have "0 \<le> n div 256" using Suc.prems by simp
  ultimately have "le_int (le_bytes k (n div 256)) = n div 256" by (rule Suc.IH[rotated])
  moreover have "uint (word_of_int (n mod 256) :: byte) = n mod 256"
    by (simp add: uint_word_of_int take_bit_eq_mod)
  ultimately show ?case by simp
qed

lemma le_bytes_4_ex: "\<exists>a b c d. le_bytes 4 n = [a, b, c, d]"
  by (simp add: numeral_eq_Suc)

lemma le_bytes_2_ex: "\<exists>a b. le_bytes 2 n = [a, b]"
  by (simp add: numeral_eq_Suc)

definition valid_format :: "int \<Rightarrow> int \<Rightarrow> int \<Rightarrow> bool" where
  "valid_format r w c \<longleftrightarrow>
     1 \<le> c \<and> c < 2 ^ 16 \<and> 1 \<le> w \<and> w \<le> 4 \<and> 0 < r \<and> r < 2 ^ 32
     \<and> c * r * w < 2 ^ 32 \<and> c * w < 2 ^ 16"

definition wav_header :: "int \<Rightarrow> int \<Rightarrow> int \<Rightarrow> int \<Rightarrow> bytes" where
  "wav_header c w r n =
     RIFF @ le_bytes 4 (36 + n) @ WAVE @ fmt_id @ le_bytes 4 16 @ le_bytes 2 WAVE_FORMAT_PCM
     @ le_bytes 2 c @ le_bytes 4 r @ le_bytes 4 (c * r * w) @ le_bytes 2 (c * w)
     @ le_bytes 2 (w * 8) @ data_id @ le_bytes 4 n"

lemma then_do_Inr:
  "then_do m f = Inr y \<Longrightarrow> \<exists>x. m = Inr x \<and> f x = Inr y"
  by (cases m) auto

lemma write_at_4:
  "length h = 4 \<Longrightarrow> length b = 4 \<Longrightarrow> length b' = 4 \<Longrightarrow> write_at (h @ b @ rest) 4 b' = h @ b' @ rest"
  by (simp add: write_at_def)

lemma write_at_40:
  "length h = 40 \<Longrightarrow> length b = 4 \<Longrightarrow> length b' = 4 \<Longrightarrow> write_at (h @ b @ rest) 40 b' = h @ b' @ rest"
  by (simp add: write_at_def)

lemma encode_wav_ok:
  assumes v0: "valid_format (sample_rate config) (sample_width config) (channels config)"
    and len: "36 + int (length s) < 2 ^ 32"
  shows "encode_wav config s
         = Inr (wav_header (channels config) (sample_width config) (sample_rate config)
                  (int (length s)) @ s)"
proof -
  define c where "c = channels config"
  define w where "w = sample_width config"
  define r where "r = sample_rate config"
  have v: "valid_format r w c" using v0 by (simp add: c_def w_def r_def)
  define L where "L = int (length s)"
  define D where "D = L div (c * w) * c * w"
  have cw: "0 < c * w" using v by (simp add: valid_format_def)
  have D: "0 \<le> D" "D \<le> L"
  proof -
    have "L div (c * w) * (c * w) \<le> L"
      using div_mult_mod_eq[of L "c * w"] pos_mod_sign[OF cw, of L] by linarith
    then show "D \<le> L" by (simp add: D_def mult.assoc)
    show "0 \<le> D" using cw by (simp add: D_def L_def pos_imp_zdiv_nonneg_iff mult.assoc)
  qed
  have w8: "w * 8 < 2 ^ 16" "0 \<le> w * 8" using v by (auto simp: valid_format_def)
  have packs: "pack_L (36 + D) = Inr (le_bytes 4 (36 + D))" "pack_L D = Inr (le_bytes 4 D)"
    "pack_L (36 + L) = Inr (le_bytes 4 (36 + L))" "pack_L L = Inr (le_bytes 4 L)"
    "pack_L 16 = Inr (le_bytes 4 16)" "pack_H WAVE_FORMAT_PCM = Inr (le_bytes 2 WAVE_FORMAT_PCM)"
    "pack_H c = Inr (le_bytes 2 c)" "pack_L r = Inr (le_bytes 4 r)"
    "pack_L (c * r * w) = Inr (le_bytes 4 (c * r * w))"
    "pack_H (c * w) = Inr (le_bytes 2 (c * w))" "pack_H (w * 8) = Inr (le_bytes 2 (w * 8))"
    using v len D w8 cw
    by (auto simp: pack_L_def pack_H_def valid_format_def L_def WAVE_FORMAT_PCM_def
        mult_nonneg_nonneg)
  define w3 where "w3 = Wave_write_initfp\<lparr>ww_nchannels := c, ww_sampwidth := w, ww_framerate := r\<rparr>"
  have s3: "then_do (setnchannels c Wave_write_initfp) (\<lambda>wf.
            then_do (setsampwidth w wf) (\<lambda>wf. then_do (setframerate r wf) k)) = k w3" for k :: "Wave_write \<Rightarrow> exn + 'x"
    using v by (simp add: setnchannels_def setsampwidth_def setframerate_def
        Wave_write_initfp_def valid_format_def w3_def)
  define h40 where "h40 D' = RIFF @ le_bytes 4 (36 + D') @ WAVE @ fmt_id @ le_bytes 4 16 @ le_bytes 2 WAVE_FORMAT_PCM
     @ le_bytes 2 c @ le_bytes 4 r @ le_bytes 4 (c * r * w) @ le_bytes 2 (c * w)
     @ le_bytes 2 (w * 8) @ data_id" for D'
  define w4 where "w4 = w3\<lparr>ww_file := h40 D @ le_bytes 4 D, ww_nframes := L div (c * w),
        ww_datalength := D, ww_headerwritten := True, ww_form_length_pos := 4,
        ww_data_length_pos := 40\<rparr>"
  have hdr: "ensure_header_written L w3 = Inr w4"
    using v packs
    by (simp add: ensure_header_written_def write_header_def w3_def w4_def h40_def
        Wave_write_initfp_def valid_format_def Let_def D_def length_le_bytes RIFF_def
        WAVE_def fmt_id_def data_id_def)
  define w5 where "w5 = w4\<lparr>ww_file := h40 D @ le_bytes 4 D @ s, ww_datawritten := L,
        ww_nframeswritten := L div (w * c)\<rparr>"
  have raw: "writeframesraw s w3 = Inr w5"
    using hdr by (simp add: writeframesraw_def L_def[symmetric] w5_def w4_def w3_def
        Wave_write_initfp_def Let_def)
  define w6 where "w6 = w5\<lparr>ww_file := h40 L @ le_bytes 4 L @ s, ww_datalength := L\<rparr>"
  have patch: "D \<noteq> L \<Longrightarrow> patchheader w5 = Inr w6"
  proof -
    assume "D \<noteq> L"
    have 1: "write_at (h40 D @ le_bytes 4 D @ s) 4 (le_bytes 4 (36 + L)) = h40 L @ le_bytes 4 D @ s"
      unfolding h40_def append_assoc
      by (rule write_at_4) (simp_all add: length_le_bytes RIFF_def)
    have 2: "write_at (h40 L @ le_bytes 4 D @ s) 40 (le_bytes 4 L) = h40 L @ le_bytes 4 L @ s"
      by (rule write_at_40)
         (simp_all add: length_le_bytes h40_def RIFF_def WAVE_def fmt_id_def data_id_def)
    show ?thesis using \<open>D \<noteq> L\<close> packs
      by (simp add: patchheader_def w5_def w4_def w6_def Let_def 1 2)
  qed
  have same: "D = L \<Longrightarrow> w5 = w6" by (simp add: w5_def w6_def w4_def)
  have wf: "writeframes s w3 = Inr w6"
    using raw patch same by (cases "D = L") (auto simp: writeframes_def w5_def w4_def)
  have cl: "Wave_write_close w6 = Inr w6"
    by (simp add: Wave_write_close_def ensure_header_written_def w6_def w5_def w4_def)
  have "encode_wav config s = Inr (ww_file w6)"
    unfolding encode_wav_def c_def[symmetric] w_def[symmetric] r_def[symmetric] s3
    by (simp add: wf cl)
  also have "ww_file w6 = wav_header c w r L @ s"
    by (simp add: w6_def wav_header_def h40_def)
  finally show ?thesis by (simp add: L_def c_def w_def r_def)
qed

text \<open>Encoding succeeds for no other format and for no longer buffer.\<close>

lemma pack_L_Inr: "pack_L n = Inr b \<Longrightarrow> 0 \<le> n \<and> n < 2 ^ 32"
  by (simp add: pack_L_def split: if_splits)

lemma pack_H_Inr: "pack_H n = Inr b \<Longrightarrow> 0 \<le> n \<and> n < 2 ^ 16"
  by (simp add: pack_H_def split: if_splits)

lemma write_header_Inr:
  assumes "write_header initlength self = Inr self'"
  shows "ww_nchannels self < 2 ^ 16 \<and> ww_framerate self < 2 ^ 32
         \<and> ww_nchannels self * ww_framerate self * ww_sampwidth self < 2 ^ 32
         \<and> ww_nchannels self * ww_sampwidth self < 2 ^ 16
         \<and> 36 + ww_datalength self' < 2 ^ 32
         \<and> ww_datalength self'
             = (if ww_nframes self = 0
                then initlength div (ww_nchannels self * ww_sampwidth self)
                else ww_nframes self) * ww_nchannels self * ww_sampwidth self
         \<and> ww_datawritten self' = ww_datawritten self"
  using assms unfolding write_header_def Let_def
  by (auto dest!: then_do_Inr pack_L_Inr pack_H_Inr)

lemma encode_wav_Inr:
  assumes "encode_wav config s = Inr x"
  shows "valid_format (sample_rate config) (sample_width config) (channels config)
         \<and> 36 + int (length s) < 2 ^ 32"
proof -
  from assms obtain w1 w2 w3 w4 where
    1: "setnchannels (channels config) Wave_write_initfp = Inr w1"
    and 2: "setsampwidth (sample_width config) w1 = Inr w2"
    and 3: "setframerate (sample_rate config) w2 = Inr w3"
    and 4: "writeframes s w3 = Inr w4"
    unfolding encode_wav_def by (blast dest: then_do_Inr)
  from 1 have c: "1 \<le> channels config" and w1: "w1 = Wave_write_initfp\<lparr>ww_nchannels := channels config\<rparr>"
    by (auto simp: setnchannels_def split: if_splits)
  from 2 have w: "1 \<le> sample_width config" "sample_width config \<le> 4"
    and w2: "w2 = w1\<lparr>ww_sampwidth := sample_width config\<rparr>"
    by (auto simp: setsampwidth_def split: if_splits)
  from 3 have r: "0 < sample_rate config" and w3: "w3 = w2\<lparr>ww_framerate := sample_rate config\<rparr>"
    by (auto simp: setframerate_def split: if_splits)
  from 4 obtain w5 where raw: "writeframesraw s w3 = Inr w5"
    and fin: "(if ww_datalength w5 \<noteq> ww_datawritten w5 then patchheader w5 else Inr w5) = Inr w4"
    unfolding writeframes_def by (blast dest: then_do_Inr)
  from raw obtain w6 where h: "ensure_header_written (int (length s)) w3 = Inr w6"
    and w5: "w5 = w6\<lparr>ww_file := ww_file w6 @ s,
                ww_datawritten := ww_datawritten w6 + int (length s),
                ww_nframeswritten := ww_nframeswritten w6
                  + int (length s) div (ww_sampwidth w6 * ww_nchannels w6)\<rparr>"
    unfolding writeframesraw_def Let_def by (auto dest!: then_do_Inr)
  from h have wh: "write_header (int (length s)) w3 = Inr w6"
    by (simp add: ensure_header_written_def w3 w2 w1 Wave_write_initfp_def split: if_splits)
  note f = write_header_Inr[OF wh]
  have sel: "ww_nchannels w3 = channels config" "ww_sampwidth w3 = sample_width config"
    "ww_framerate w3 = sample_rate config" "ww_datawritten w3 = 0"
    by (simp_all add: w3 w2 w1 Wave_write_initfp_def)
  have written: "ww_datawritten w5 = int (length s)" using f sel by (simp add: w5)
  have dl: "ww_datalength w5 = ww_datalength w6" by (simp add: w5)
  have "36 + int (length s) < 2 ^ 32"
  proof (cases "ww_datalength w5 = ww_datawritten w5")
    case True
    with f written dl show ?thesis by simp
  next
    case False
    with fin have "patchheader w5 = Inr w4" by simp
    with False written show ?thesis
      unfolding patchheader_def Let_def by (auto dest!: then_do_Inr pack_L_Inr)
  qed
  with c w r f sel show ?thesis by (simp add: valid_format_def)
qed

lemma encode_wav_succeeds_iff:
  "(\<exists>x. encode_wav config s = Inr x)
   \<longleftrightarrow> valid_format (sample_rate config) (sample_width config) (channels config)
       \<and> 36 + int (length s) < 2 ^ 32"
  using encode_wav_Inr encode_wav_ok by blast

definition bio :: "bytes \<Rightarrow> nat \<Rightarrow> BytesIO" where
  "bio buf p = \<lparr>bio_buf = buf, bio_pos = p\<rparr>"

definition riff_at :: "bytes \<Rightarrow> nat \<Rightarrow> nat \<Rightarrow> riff_chunk" where
  "riff_at buf cs q = Chunk (bio buf (8 + q)) RIFF cs q 8"

lemma BytesIO_read_inside:
  "p + k \<le> length buf \<Longrightarrow> BytesIO_read (bio buf p) k = (take k (drop p buf), bio buf (p + k))"
  by (auto simp add: BytesIO_read_def bio_def Let_def min_def)

lemma BytesIO_read_end:
  "length buf \<le> p \<Longrightarrow> BytesIO_read (bio buf p) k = ([], bio buf p)"
  by (simp add: BytesIO_read_def bio_def Let_def)

lemma riff_read_inside:
  assumes "q + k \<le> cs" and "length buf = 8 + cs"
  shows "riff_read (riff_at buf cs q) k = (take k (drop (8 + q) buf), riff_at buf cs (q + k))"
proof (cases "q < cs")
  case True
  have r: "BytesIO_read (bio buf (8 + q)) k = (take k (drop (8 + q) buf), bio buf (8 + q + k))"
    using assms by (intro BytesIO_read_inside) simp
  have e: "q + k = cs \<Longrightarrow> BytesIO_read (bio buf (8 + q + k)) 1 = ([], bio buf (8 + q + k))"
    using assms by (intro BytesIO_read_end) simp
  have len: "length (take k (drop (8 + q) buf)) = k" using assms by simp
  have nk: "\<not> cs - q < k" using assms(1) by simp
  show ?thesis
    using True e
    by (simp add: riff_read_def riff_at_def Chunk_read_def nk r len set_pos_def Let_def
             add.assoc del: length_take)
next
  case False
  with assms have "k = 0" "q = cs" by auto
  then show ?thesis by (simp add: riff_read_def riff_at_def Chunk_read_def)
qed

lemma sub_read_inside:
  assumes "t + k \<le> S" and "q + k \<le> cs" and "length buf = 8 + cs"
    and "even S \<or> q + k = cs"
  shows "Chunk_read riff_read (Chunk (riff_at buf cs q) nm S t off) k
         = (take k (drop (8 + q) buf), Chunk (riff_at buf cs (q + k)) nm S (t + k) off)"
proof (cases "t < S")
  case True
  note r = riff_read_inside[OF assms(2,3)]
  have e: "q + k = cs \<Longrightarrow> riff_read (riff_at buf cs (q + k)) 1 = ([], riff_at buf cs (q + k))"
    by (simp add: riff_read_def riff_at_def Chunk_read_def)
  have len: "length (take k (drop (8 + q) buf)) = k" using assms by simp
  have nk: "\<not> S - t < k" using assms(1) by simp
  show ?thesis
    using True assms(4) e
    by (auto simp add: Chunk_read_def nk r len set_pos_def Let_def simp del: length_take)
next
  case False
  with assms have "k = 0" "t = S" by auto
  then show ?thesis by (simp add: Chunk_read_def)
qed

lemma wav_header_layout:
  fixes s :: bytes and c w r n :: int
  defines "buf \<equiv> wav_header c w r n @ s"
  shows "length buf = 44 + length s"
    and "take 4 buf = RIFF"
    and "take 4 (drop 4 buf) = le_bytes 4 (36 + n)"
    and "take 4 (drop 8 buf) = WAVE"
    and "take 4 (drop 12 buf) = fmt_id"
    and "take 4 (drop 16 buf) = le_bytes 4 16"
    and "take 14 (drop 20 buf) = le_bytes 2 WAVE_FORMAT_PCM @ le_bytes 2 c @ le_bytes 4 r
           @ le_bytes 4 (c * r * w) @ le_bytes 2 (c * w)"
    and "take 2 (drop 34 buf) = le_bytes 2 (w * 8)"
    and "take 4 (drop 36 buf) = data_id"
    and "take 4 (drop 40 buf) = le_bytes 4 n"
    and "drop 44 buf = s"
proof -
  obtain a0 a1 a2 a3 where a: "le_bytes 4 (36 + n) = [a0, a1, a2, a3]"
    using le_bytes_4_ex by blast
  obtain b0 b1 b2 b3 where b: "le_bytes 4 16 = [b0, b1, b2, b3]"
    using le_bytes_4_ex by blast
  obtain t0 t1 where t: "le_bytes 2 WAVE_FORMAT_PCM = [t0, t1]"
    using le_bytes_2_ex by blast
  obtain c0 c1 where c: "le_bytes 2 c = [c0, c1]"
    using le_bytes_2_ex by blast
  obtain r0 r1 r2 r3 where r: "le_bytes 4 r = [r0, r1, r2, r3]"
    using le_bytes_4_ex by blast
  obtain x0 x1 x2 x3 where x: "le_bytes 4 (c * r * w) = [x0, x1, x2, x3]"
    using le_bytes_4_ex by blast
  obtain y0 y1 where y: "le_bytes 2 (c * w) = [y0, y1]"
    using le_bytes_2_ex by blast
  obtain z0 z1 where z: "le_bytes 2 (w * 8) = [z0, z1]"
    using le_bytes_2_ex by blast
  obtain d0 d1 d2 d3 where d: "le_bytes 4 n = [d0, d1, d2, d3]"
    using le_bytes_4_ex by blast
  note defs = buf_def wav_header_def a b t c r x y z d RIFF_def WAVE_def fmt_id_def data_id_def
  show "length buf = 44 + length s" by (simp add: defs)
  show "take 4 buf = RIFF" by (simp add: defs)
  show "take 4 (drop 4 buf) = le_bytes 4 (36 + n)" by (simp add: defs)
  show "take 4 (drop 8 buf) = WAVE" by (simp add: defs)
  show "take 4 (drop 12 buf) = fmt_id" by (simp add: defs)
  show "take 4 (drop 16 buf) = le_bytes 4 16" by (simp add: defs)
  show "take 14 (drop 20 buf) = le_bytes 2 WAVE_FORMAT_PCM @ le_bytes 2 c @ le_bytes 4 r
           @ le_bytes 4 (c * r * w) @ le_bytes 2 (c * w)" by (simp add: defs)
  show "take 2 (drop 34 buf) = le_bytes 2 (w * 8)" by (simp add: defs)
  show "take 4 (drop 36 buf) = data_id" by (simp add: defs)
  show "take 4 (drop 40 buf) = le_bytes 4 n" by (simp add: defs)
  show "drop 44 buf = s" by (simp add: defs)
qed

lemma riff_at_sel:
  "size_read (riff_at buf cs q) = q" "chunksize (riff_at buf cs q) = cs"
  "chunkname (riff_at buf cs q) = RIFF"
  by (simp_all add: riff_at_def)

lemma fmt_id_neq_data_id: "data_id \<noteq> fmt_id"
  by (simp add: fmt_id_def data_id_def)

lemma decode_wav_ok:
  assumes v: "valid_format r w c" and len: "36 + int (length s) < 2 ^ 32"
  shows "decode_wav (wav_header c w r (int (length s)) @ s)
         = Inr (r, w, c, take (length s div nat (c * w) * nat (c * w)) s)"
proof -
  define n where "n = length s"
  define buf where "buf = wav_header c w r (int n) @ s"
  define cs where "cs = 36 + n"
  note lay = wav_header_layout[of c w r "int n" s, folded buf_def]
  have lb: "length buf = 8 + cs" using lay(1) by (simp add: cs_def n_def)
  have cw: "0 < c * w" "0 < c" "0 < w" using v by (auto simp: valid_format_def)
  have sizes: "le_int (le_bytes 4 (36 + int n)) = 36 + int n" "le_int (le_bytes 4 16) = 16"
    "le_int (le_bytes 2 WAVE_FORMAT_PCM) = WAVE_FORMAT_PCM" "le_int (le_bytes 2 c) = c"
    "le_int (le_bytes 4 r) = r" "le_int (le_bytes 2 (w * 8)) = w * 8"
    "le_int (le_bytes 4 (int n)) = int n"
    using v len by (auto intro!: le_int_le_bytes simp: valid_format_def n_def WAVE_FORMAT_PCM_def)
  \<comment> \<open>the RIFF chunk\<close>
  have A: "Chunk_init BytesIO_read BytesIO_tell \<lparr>bio_buf = buf, bio_pos = 0\<rparr>
           = Inr (riff_at buf cs 0)"
  proof -
    have 1: "BytesIO_read (bio buf 0) 4 = (take 4 (drop 0 buf), bio buf (0 + 4))"
      by (rule BytesIO_read_inside) (simp add: lb)
    have 2: "BytesIO_read (bio buf 4) 4 = (take 4 (drop 4 buf), bio buf (4 + 4))"
      by (rule BytesIO_read_inside) (simp add: lb)
    show ?thesis
      using 1 2
      by (simp add: Chunk_init_def bio_def[symmetric] lay sizes length_le_bytes riff_at_def
          BytesIO_tell_def cs_def RIFF_def) (simp add: bio_def)
  qed
  have B: "riff_read (riff_at buf cs 0) 4 = (WAVE, riff_at buf cs 4)"
    using riff_read_inside[of 0 4 cs buf] lb by (simp add: lay cs_def)
  \<comment> \<open>the fmt chunk\<close>
  define fmtc where "fmtc q t = Chunk (riff_at buf cs q) fmt_id 16 t 12" for q t
  have C: "Chunk_init riff_read Chunk_tell (riff_at buf cs 4) = Inr (fmtc 12 0)"
  proof -
    have 1: "riff_read (riff_at buf cs 4) 4 = (fmt_id, riff_at buf cs 8)"
      using riff_read_inside[of 4 4 cs buf] lb by (simp add: lay cs_def)
    have 2: "riff_read (riff_at buf cs 8) 4 = (le_bytes 4 16, riff_at buf cs 12)"
      using riff_read_inside[of 8 4 cs buf] lb by (simp add: lay cs_def)
    show ?thesis
      by (simp add: Chunk_init_def 1 2 sizes length_le_bytes fmtc_def Chunk_tell_def
          riff_at_sel fmt_id_def)
  qed
  define fmt where "fmt = \<lparr>rd_nchannels = c, rd_framerate = r, rd_sampwidth = w,
                           rd_framesize = c * w\<rparr>"
  have D: "read_fmt_chunk (fmtc 12 0) = Inr (fmt, fmtc 28 16)"
  proof -
    obtain t0 t1 where t: "le_bytes 2 WAVE_FORMAT_PCM = [t0, t1]"
      using le_bytes_2_ex by blast
    obtain c0 c1 where c: "le_bytes 2 c = [c0, c1]"
      using le_bytes_2_ex by blast
    obtain r0 r1 r2 r3 where r: "le_bytes 4 r = [r0, r1, r2, r3]"
      using le_bytes_4_ex by blast
    obtain x0 x1 x2 x3 where x: "le_bytes 4 (c * r * w) = [x0, x1, x2, x3]"
      using le_bytes_4_ex by blast
    obtain y0 y1 where y: "le_bytes 2 (c * w) = [y0, y1]"
      using le_bytes_2_ex by blast
    define b14 where "b14 = [t0, t1, c0, c1, r0, r1, r2, r3, x0, x1, x2, x3, y0, y1]"
    have 1: "Chunk_read riff_read (fmtc 12 0) 14 = (b14, fmtc 26 14)"
      using sub_read_inside[of 0 14 16 12 cs buf fmt_id 12] lb
      by (simp add: lay cs_def fmtc_def b14_def t c r x y)
    have 2: "Chunk_read riff_read (fmtc 26 14) 2 = (le_bytes 2 (w * 8), fmtc 28 16)"
      using sub_read_inside[of 14 2 16 26 cs buf fmt_id 12] lb
      by (simp add: lay cs_def fmtc_def)
    have f: "le_int (take 2 b14) = WAVE_FORMAT_PCM" "le_int (take 2 (drop 2 b14)) = c"
      "le_int (take 4 (drop 4 b14)) = r"
      using sizes by (simp_all add: b14_def t c r)
    have l14: "length b14 = 14" by (simp add: b14_def)
    have sw: "(w * 8 + 7) div 8 = w" by simp
    show ?thesis
      using cw by (simp add: read_fmt_chunk_def 1 2 f l14 sizes length_le_bytes sw fmt_def)
  qed
  have E: "Chunk_skip riff_seek_cur (fmtc 28 16) = Inr (fmtc 28 16)"
    by (simp add: Chunk_skip_def riff_seek_cur_def Chunk_seek_cur_def fmtc_def riff_at_def
        set_pos_def BytesIO_seek_def bio_def cs_def)
  \<comment> \<open>the data chunk\<close>
  define datac where "datac = Chunk (riff_at buf cs 36) data_id n 0 36"
  have F: "Chunk_init riff_read Chunk_tell (riff_at buf cs 28) = Inr datac"
  proof -
    have 1: "riff_read (riff_at buf cs 28) 4 = (data_id, riff_at buf cs 32)"
      using riff_read_inside[of 28 4 cs buf] lb by (simp add: lay cs_def)
    have 2: "riff_read (riff_at buf cs 32) 4 = (le_bytes 4 (int n), riff_at buf cs 36)"
      using riff_read_inside[of 32 4 cs buf] lb by (simp add: lay cs_def)
    show ?thesis
      by (simp add: Chunk_init_def 1 2 sizes length_le_bytes datac_def Chunk_tell_def
          riff_at_sel data_id_def)
  qed
  have G2: "read_chunks (riff_at buf cs 28) (Some fmt) = Inr (fmt, datac)"
    by (subst read_chunks.simps) (simp add: F datac_def fmt_id_neq_data_id)
  have G: "read_chunks (riff_at buf cs 4) None = Inr (fmt, datac)"
    by (subst read_chunks.simps)
       (simp add: C[unfolded fmtc_def] D[unfolded fmtc_def] E[unfolded fmtc_def] G2)
  have I: "Wave_read_initfp \<lparr>bio_buf = buf, bio_pos = 0\<rparr>
           = Inr \<lparr>wr_fmt = fmt, wr_nframes = int n div (c * w), wr_data_chunk = datac\<rparr>"
    by (simp add: Wave_read_initfp_def A B G riff_at_sel fmt_def datac_def)
  \<comment> \<open>the frames\<close>
  define k where "k = n div nat (c * w) * nat (c * w)"
  have kn: "k \<le> n" by (simp add: k_def)
  have nf: "int n div (c * w) = int (n div nat (c * w))"
    using cw by (simp add: zdiv_int)
  have R: "readframes \<lparr>wr_fmt = fmt, wr_nframes = int n div (c * w), wr_data_chunk = datac\<rparr>
             (int n div (c * w)) = take k s"
  proof (cases "n div nat (c * w) = 0")
    case True
    then show ?thesis by (simp add: readframes_def nf k_def)
  next
    case False
    have eq: "nat (int (n div nat (c * w)) * (c * w)) = k"
      using cw by (simp add: k_def nat_mult_distrib)
    have nneg: "\<not> int (n div nat (c * w)) * (c * w) < 0"
      using cw by (simp add: mult_less_0_iff)
    have rd: "fst (Chunk_read riff_read datac k) = take k s"
    proof (cases "k = n")
      case True
      have "Chunk_read riff_read (Chunk (riff_at buf cs 36) data_id n 0 36) k
            = (take k (drop (8 + 36) buf), Chunk (riff_at buf cs (36 + k)) data_id n (0 + k) 36)"
        by (rule sub_read_inside) (use True lb in \<open>simp_all add: cs_def\<close>)
      then show ?thesis by (simp add: datac_def lay)
    next
      case neq: False
      with kn have lt: "k < n" by simp
      obtain d1 f1 where r1: "riff_read (riff_at buf cs 36) k = (d1, f1)"
        by (cases "riff_read (riff_at buf cs 36) k")
      have "riff_read (riff_at buf cs 36) k = (take k (drop (8 + 36) buf), riff_at buf cs (36 + k))"
        by (rule riff_read_inside) (use lt lb in \<open>simp_all add: cs_def\<close>)
      with r1 have d1: "d1 = take k s" by (simp add: lay)
      have lk: "length (take k s) = k" using kn by (simp add: n_def)
      show ?thesis
        using lt lk by (simp add: datac_def Chunk_read_def r1 d1 Let_def del: length_take)
    qed
    show ?thesis
      using False by (simp add: readframes_def nf fmt_def eq nneg rd Let_def)
  qed
  show ?thesis
    unfolding n_def[symmetric] buf_def[symmetric] k_def[symmetric]
    by (simp add: decode_wav_def I R Let_def) (simp add: fmt_def)
qed

text \<open>
  The container of three bytes under the default format, byte for byte as the library
  writes it, and what the library reads back from it.
\<close>

lemma encode_wav_example:
  "encode_wav (WyomingConfig_init ''0.0.0.0'' 10200 ''default'') [1, 2, 3]
   = Inr [82, 73, 70, 70, 39, 0, 0, 0, 87, 65, 86, 69, 102, 109, 116, 32, 16, 0, 0, 0, 1, 0,
          1, 0, 192, 93, 0, 0, 128, 187, 0, 0, 2, 0, 16, 0, 100, 97, 116, 97, 3, 0, 0, 0,
          1, 2, 3]"
  by code_simp

lemma decode_wav_example:
  "decode_wav [82, 73, 70, 70, 39, 0, 0, 0, 87, 65, 86, 69, 102, 109, 116, 32, 16, 0, 0, 0, 1, 0,
          1, 0, 192, 93, 0, 0, 128, 187, 0, 0, 2, 0, 16, 0, 100, 97, 116, 97, 3, 0, 0, 0,
          1, 2, 3]
   = Inr (24000, 2, 1, [1, 2])"
  by code_simp

text \<open>A block size \<open>c * w\<close> beyond 16 bits does not fit the header.\<close>

lemma encode_wav_block_size_overflow:
  "encode_wav
     \<lparr>host = ''0.0.0.0'', port = 10200, default_voice = ''default'', sample_rate = 1,
      sample_width = 2, channels = 40000\<rparr> []
   = Inl StructError"
  by code_simp

lemma decode_wav_not_a_container: "decode_wav [1, 2, 3] = Inl EOFError"
  by code_simp

section \<open>Properties of the handler and of discovery\<close>

lemma whole_frames_take:
  assumes "0 < k" and "int (length s) mod k = 0"
  shows "take (length s div nat k * nat k) s = s"
proof -
  have "int (length s mod nat k) = int (length s) mod k"
    using assms(1) by (simp add: zmod_int)
  then have "length s mod nat k = 0" using assms(2) by simp
  then have "length s div nat k * nat k = length s" by auto
  then show ?thesis by simp
qed

text \<open>A request whose model call returns \<open>s\<close> is answered by three events.\<close>

lemma handle_synthesize_ok:
  assumes v: "valid_format (sample_rate config) (sample_width config) (channels config)"
    and len: "36 + int (length s) < 2 ^ 32"
    and m: "model (syn_text syn) (resolve_voice_path lib cfg (requested_voice_name syn))
              (EXAGGERATION cfg) (CFG_WEIGHT cfg) (TEMPERATURE cfg) = Inr s"
  shows "handle_synthesize config lib cfg model syn
         = Inr [AudioStart (sample_rate config) (sample_width config) (channels config),
                AudioChunk
                  (take (length s div nat (channels config * sample_width config)
                         * nat (channels config * sample_width config)) s)
                  (sample_rate config) (sample_width config) (channels config),
                AudioStop]"
  by (simp add: handle_synthesize_def generate_speech_def m encode_wav_ok[OF v len]
      create_audio_response_def decode_wav_ok[OF v len])

lemma handle_synthesize_Inr:
  assumes "handle_synthesize config lib cfg model syn = Inr evs"
  shows "\<exists>audio_data rate width chans frames.
           generate_speech config cfg model (syn_text syn)
             (resolve_voice_path lib cfg (requested_voice_name syn)) = Inr audio_data
           \<and> decode_wav audio_data = Inr (rate, width, chans, frames)
           \<and> evs = [AudioStart rate width chans, AudioChunk frames rate width chans, AudioStop]"
proof -
  from assms obtain audio_data where
    g: "generate_speech config cfg model (syn_text syn)
          (resolve_voice_path lib cfg (requested_voice_name syn)) = Inr audio_data"
    and c: "create_audio_response audio_data = Inr evs"
    by (auto simp: handle_synthesize_def Let_def dest: then_do_Inr)
  from c obtain x where d: "decode_wav audio_data = Inr x"
    and e: "(case x of (rate, width, chans, frames) \<Rightarrow>
              Inr [AudioStart rate width chans, AudioChunk frames rate width chans, AudioStop])
            = Inr evs"
    unfolding create_audio_response_def by (auto dest: then_do_Inr)
  obtain rate width chans frames where x: "x = (rate, width, chans, frames)"
    by (cases x) auto
  from e x have "evs = [AudioStart rate width chans, AudioChunk frames rate width chans, AudioStop]"
    by simp
  with g d x show ?thesis by blast
qed

lemma discover_scan_names_mono:
  "n \<in> set (registry_names reg)
   \<Longrightarrow> n \<in> set (registry_names (fst (discover_scan exts lang now fs reg res)))"
  by (induction fs arbitrary: reg res) (auto simp: registry_names_def)

lemma discover_scan_covers:
  assumes "f \<in> set fs" and "de_extension f \<in> set exts" and "de_structurally_valid f"
  shows "de_stem f \<in> set (registry_names (fst (discover_scan exts lang now fs reg res)))"
  using assms
proof (induction fs arbitrary: reg res)
  case Nil
  then show ?case by simp
next
  case (Cons g fs)
  let ?reg' = "reg\<lparr>profiles := profiles reg @ [discovered_profile (voice_dir reg) lang now g]\<rparr>"
  show ?case
  proof (cases "f = g")
    case True
    have 1: "de_stem f \<in> set (registry_names reg) \<Longrightarrow> ?thesis"
      by (rule discover_scan_names_mono)
    have 2: "de_stem f \<in> set (registry_names ?reg')"
      by (simp add: registry_names_def discovered_profile_def True)
    have 3: "de_stem f \<notin> set (registry_names reg) \<Longrightarrow> ?thesis"
      using discover_scan_names_mono[OF 2, of exts lang now fs] Cons.prems True
      by simp
    from 1 3 show ?thesis by blast
  next
    case False
    with Cons.prems have "f \<in> set fs" by simp
    from Cons.IH[OF this Cons.prems(2,3)] show ?thesis by simp
  qed
qed

lemma discover_scan_fixpoint:
  assumes "\<forall>f \<in> set fs. de_extension f \<in> set exts \<and> de_structurally_valid f
             \<longrightarrow> de_stem f \<in> set (registry_names reg)"
  shows "fst (discover_scan exts lang now fs reg res) = reg
         \<and> imported (snd (discover_scan exts lang now fs reg res)) = imported res"
  using assms by (induction fs arbitrary: res) auto

lemma discover_scan_known_unreported:
  assumes "n \<in> set (registry_names reg)"
  shows "(n \<in> set (imported (snd (discover_scan exts lang now fs reg res)))
            \<longleftrightarrow> n \<in> set (imported res))
         \<and> (n \<in> set (skipped (snd (discover_scan exts lang now fs reg res)))
            \<longleftrightarrow> n \<in> set (skipped res))"
  using assms
proof (induction fs arbitrary: reg res)
  case Nil
  then show ?case by simp
next
  case (Cons g fs)
  let ?reg' = "reg\<lparr>profiles := profiles reg @ [discovered_profile (voice_dir reg) lang now g]\<rparr>"
  have n': "n \<in> set (registry_names ?reg')"
    using Cons.prems by (simp add: registry_names_def)
  show ?case
    using Cons.IH[OF Cons.prems] Cons.IH[OF n'] Cons.prems by auto
qed

text \<open>The spec's scenario of a directory with \<^verbatim>\<open>alpha.wav\<close> and \<^verbatim>\<open>notes.txt\<close>.\<close>

lemma discover_scenario_alpha:
  "snd (discover_and_import [''wav'', ''mp3'', ''flac'', ''m4a'', ''ogg''] ''en'' 0
     [\<lparr>de_stem = ''alpha'', de_extension = ''wav'', de_structurally_valid = True\<rparr>,
      \<lparr>de_stem = ''notes'', de_extension = ''txt'', de_structurally_valid = True\<rparr>]
     \<lparr>voice_dir = ''voices'', profiles = []\<rparr>)
   = \<lparr>imported = [''alpha''], skipped = []\<rparr>"
  by (simp add: discover_and_import_def registry_names_def)

section \<open>Example inputs\<close>

text \<open>
  The configuration of \<^verbatim>\<open>run_wyoming_server()\<close> called with its defaults, and the
  concrete libraries, requests and models the examples below are run on.
\<close>

definition default_config :: WyomingConfig where
  "default_config = WyomingConfig_init ''0.0.0.0'' 10200 ''default''"

definition stereo_config :: WyomingConfig where
  "stereo_config =
     \<lparr>host = ''127.0.0.1'', port = 10200, default_voice = ''default'', sample_rate = 16000,
      sample_width = 2, channels = 2\<rparr>"

definition app_config :: "unit Config" where
  "app_config =
     \<lparr>VOICE_SAMPLE_PATH = ''voice-sample.mp3'', EXAGGERATION = (), CFG_WEIGHT = (),
      TEMPERATURE = ()\<rparr>"

definition no_voices :: voice_library where
  "no_voices = \<lparr>get_default_voice = None, get_voice_path = (\<lambda>n. None), list_voices = []\<rparr>"

definition alice_added :: voice_library where
  "alice_added =
     \<lparr>get_default_voice = None,
      get_voice_path = (\<lambda>n. if n = ''alice'' then Some ''voices/alice.wav'' else None),
      list_voices = [\<lparr>entry_name = ''alice''\<rparr>]\<rparr>"

definition say_hello :: Synthesize where
  "say_hello = \<lparr>syn_text = ''hello'', syn_voice = None\<rparr>"

definition say_hello_as :: "string \<Rightarrow> Synthesize" where
  "say_hello_as n =
     \<lparr>syn_text = ''hello'',
      syn_voice = Some \<lparr>sv_name = Some n, sv_language = None, sv_speaker = None\<rparr>\<rparr>"

definition model_returning :: "bytes \<Rightarrow> unit tts_model" where
  "model_returning b text voice_path exaggeration cfg_weight temperature = Inr b"

definition model_raising :: "string \<Rightarrow> unit tts_model" where
  "model_raising msg text voice_path exaggeration cfg_weight temperature =
     Inl (ModelException msg)"

definition model_raising_for :: "string \<Rightarrow> string \<Rightarrow> unit tts_model" where
  "model_raising_for path msg text voice_path exaggeration cfg_weight temperature =
     (if voice_path = path then Inl (ModelException msg) else Inr [])"

definition audio_extensions :: "string list" where
  "audio_extensions = [''wav'', ''mp3'', ''flac'', ''m4a'', ''ogg'']"

definition example_directory :: "dir_entry list" where
  "example_directory =
     [\<lparr>de_stem = ''existing'', de_extension = ''wav'', de_structurally_valid = True\<rparr>,
      \<lparr>de_stem = ''broken'', de_extension = ''wav'', de_structurally_valid = False\<rparr>,
      \<lparr>de_stem = ''notes'', de_extension = ''txt'', de_structurally_valid = True\<rparr>]"

definition empty_registry :: VoiceRegistry where
  "empty_registry = \<lparr>voice_dir = ''voices'', profiles = []\<rparr>"

lemma default_config_valid:
  "valid_format (sample_rate default_config) (sample_width default_config)
     (channels default_config)"
  by (simp add: valid_format_def default_config_def WyomingConfig_init_def)

lemma default_config_format:
  "sample_rate default_config = 24000" "sample_width default_config = 2"
  "channels default_config = 1"
  by (simp_all add: default_config_def WyomingConfig_init_def)

section \<open>Theorems\<close>

text \<open>
  C2 (as stated). The description returned for a capability-description request
  includes a voice added to the registry after server startup. With such a voice in the
  registry, handling the request returns no event at all, and so no description.
\<close>

theorem description_at_request_time_counterexample:
  "''alice'' \<in> set (map entry_name (list_voices alice_added))
   \<and> handle_event default_config alice_added app_config (model_returning [])
         (OtherEvent ''describe'')
       = Inr None"
  by (simp add: alice_added_def)

text \<open>
  C2 (amended). For every capability-description request (as for every request that is
  not a synthesize request), the handler returns no event, whatever the registry holds
  when the request is handled: no description of the available voices is built at
  request time, and a voice added to the registry is not reported in answer to it.
\<close>

theorem describe_returns_no_event:
  "handle_event config lib cfg model (OtherEvent event_type) = Inr None"
  by simp

text \<open>
  C3 (as stated). When the synthesis call fails, the gateway emits a protocol-level
  error event to the client. The handler returns no event at all: the exception of the
  model leaves \<^verbatim>\<open>handle_event\<close>.
\<close>

theorem synthesis_failure_error_event_counterexample:
  "handle_event default_config no_voices app_config (model_raising ''CUDA out of memory'')
     (SynthesizeEvent say_hello)
   = Inl (ModelException ''CUDA out of memory'')"
  by (simp add: handle_synthesize_def generate_speech_def model_raising_def)

text \<open>
  C3 (amended). For every synthesize request in which the external synthesis call
  raises, the handler emits no event for that request, neither stream-start, chunk or
  end nor an error event: the exception leaves \<^verbatim>\<open>handle_event\<close> unchanged.
\<close>

theorem synthesis_failure_propagates:
  assumes "model (syn_text syn) (resolve_voice_path lib cfg (requested_voice_name syn))
             (EXAGGERATION cfg) (CFG_WEIGHT cfg) (TEMPERATURE cfg) = Inl e"
  shows "handle_event config lib cfg model (SynthesizeEvent syn) = Inl e"
  using assms by (simp add: handle_synthesize_def generate_speech_def)

theorem synthesis_failure_propagates_witness:
  "handle_event default_config alice_added app_config
     (model_raising_for ''voices/alice.wav'' ''timeout'') (SynthesizeEvent (say_hello_as ''alice''))
   = Inl (ModelException ''timeout'')"
proof -
  let ?m = "model_raising_for ''voices/alice.wav'' ''timeout''"
  let ?syn = "say_hello_as ''alice''"
  have h: "?m (syn_text ?syn) (resolve_voice_path alice_added app_config (requested_voice_name ?syn))
             (EXAGGERATION app_config) (CFG_WEIGHT app_config) (TEMPERATURE app_config)
           = Inl (ModelException ''timeout'')"
    by (simp add: resolve_voice_path_def requested_voice_name_def say_hello_as_def
        alice_added_def model_raising_for_def)
  show ?thesis
    by (rule synthesis_failure_propagates[of ?m ?syn alice_added app_config, OF h])
qed

text \<open>
  C4. For every successful synthesize request, whatever the audio (zero-length audio
  included), the emitted events match the pattern start, chunk*, end: exactly one
  stream-start event, which is first, exactly one stream-end event, which is last, and
  only stream-chunk events in between.
\<close>

theorem synthesize_response_start_chunks_stop:
  assumes "handle_event config lib cfg model (SynthesizeEvent syn) = Inr (Some evs)"
  shows "start_chunks_stop evs
         \<and> is_start (hd evs) \<and> length (filter is_start evs) = 1
         \<and> is_stop (last evs) \<and> length (filter is_stop evs) = 1"
proof -
  from assms have "handle_synthesize config lib cfg model syn = Inr evs"
    by (auto dest: then_do_Inr)
  then obtain rate width chans frames where
    "evs = [AudioStart rate width chans, AudioChunk frames rate width chans, AudioStop]"
    using handle_synthesize_Inr by blast
  then show ?thesis by (simp add: start_chunks_stop_def)
qed

theorem synthesize_response_start_chunks_stop_witness:
  "handle_event default_config no_voices app_config (model_returning []) (SynthesizeEvent say_hello)
   = Inr (Some [AudioStart 24000 2 1, AudioChunk [] 24000 2 1, AudioStop])
   \<and> start_chunks_stop [AudioStart 24000 2 1, AudioChunk [] 24000 2 1, AudioStop]"
proof -
  have "handle_synthesize default_config no_voices app_config (model_returning []) say_hello
        = Inr [AudioStart 24000 2 1, AudioChunk [] 24000 2 1, AudioStop]"
    using handle_synthesize_ok[OF default_config_valid, of "[]" "model_returning []" say_hello
        no_voices app_config]
    by (simp add: default_config_format model_returning_def)
  then have h: "handle_event default_config no_voices app_config (model_returning [])
                  (SynthesizeEvent say_hello)
                = Inr (Some [AudioStart 24000 2 1, AudioChunk [] 24000 2 1, AudioStop])"
    by simp
  from synthesize_response_start_chunks_stop[OF h] h show ?thesis by blast
qed

text \<open>
  C5 (as stated). For every synthesize request whose synthesized audio has zero bytes,
  the response is the stream-start event immediately followed by the stream-end event.
  The handler puts a chunk with an empty payload between them.
\<close>

theorem empty_audio_start_then_stop_counterexample:
  "handle_event default_config no_voices app_config (model_returning []) (SynthesizeEvent say_hello)
   = Inr (Some [AudioStart 24000 2 1, AudioChunk [] 24000 2 1, AudioStop])
   \<and> handle_event default_config no_voices app_config (model_returning [])
         (SynthesizeEvent say_hello)
       \<noteq> Inr (Some [AudioStart 24000 2 1, AudioStop])"
proof -
  have "handle_synthesize default_config no_voices app_config (model_returning []) say_hello
        = Inr [AudioStart 24000 2 1, AudioChunk [] 24000 2 1, AudioStop]"
    using handle_synthesize_ok[OF default_config_valid, of "[]" "model_returning []" say_hello
        no_voices app_config]
    by (simp add: default_config_format model_returning_def)
  then show ?thesis by simp
qed

text \<open>
  C5 (amended). For every synthesize request whose synthesized audio has zero bytes,
  under a format the container accepts, the response is the stream-start event, one
  stream-chunk event with an empty payload, and the stream-end event.
\<close>

theorem empty_audio_response:
  assumes "valid_format (sample_rate config) (sample_width config) (channels config)"
    and "model (syn_text syn) (resolve_voice_path lib cfg (requested_voice_name syn))
           (EXAGGERATION cfg) (CFG_WEIGHT cfg) (TEMPERATURE cfg) = Inr []"
  shows "handle_event config lib cfg model (SynthesizeEvent syn)
         = Inr (Some [AudioStart (sample_rate config) (sample_width config) (channels config),
                      AudioChunk [] (sample_rate config) (sample_width config) (channels config),
                      AudioStop])"
proof -
  have "36 + int (length ([] :: bytes)) < 2 ^ 32" by simp
  from handle_synthesize_ok[of config "[]" model syn lib cfg, OF assms(1) this assms(2)]
  show ?thesis by simp
qed

theorem empty_audio_response_witness:
  "handle_event stereo_config no_voices app_config (model_returning []) (SynthesizeEvent say_hello)
   = Inr (Some [AudioStart 16000 2 2, AudioChunk [] 16000 2 2, AudioStop])"
proof -
  have v: "valid_format (sample_rate stereo_config) (sample_width stereo_config)
             (channels stereo_config)"
    by (simp add: valid_format_def stereo_config_def)
  have m: "model_returning [] (syn_text say_hello)
             (resolve_voice_path no_voices app_config (requested_voice_name say_hello))
             (EXAGGERATION app_config) (CFG_WEIGHT app_config) (TEMPERATURE app_config) = Inr []"
    by (simp add: model_returning_def)
  from empty_audio_response[of stereo_config "model_returning []" say_hello no_voices
      app_config, OF v m]
  show ?thesis by (simp add: stereo_config_def)
qed

text \<open>
  C6. When no default voice is configured, resolving a voice name that is absent from
  the registry gives the same path as resolving no voice name at all: the bootstrap
  sample path. The result is always a path, never an error.
\<close>

theorem resolve_absent_voice_is_bootstrap:
  assumes "\<not> truthy (get_default_voice lib)"
    and "get_voice_path lib nm = None"
  shows "resolve_voice_path lib cfg (Some nm) = resolve_voice_path lib cfg None
         \<and> resolve_voice_path lib cfg (Some nm) = VOICE_SAMPLE_PATH cfg"
  using assms by (simp add: resolve_voice_path_def Let_def)

theorem resolve_absent_voice_is_bootstrap_witness:
  "resolve_voice_path alice_added app_config (Some ''ghost'') = ''voice-sample.mp3''
   \<and> resolve_voice_path alice_added app_config None = ''voice-sample.mp3''"
proof -
  have h1: "\<not> truthy (get_default_voice alice_added)" by (simp add: alice_added_def)
  have h2: "get_voice_path alice_added ''ghost'' = None" by (simp add: alice_added_def)
  note t = resolve_absent_voice_is_bootstrap [OF h1 h2, of app_config]
  have a: "resolve_voice_path alice_added app_config (Some ''ghost'')
           = resolve_voice_path alice_added app_config None"
    by (rule t[THEN conjunct1])
  have b: "resolve_voice_path alice_added app_config (Some ''ghost'')
           = VOICE_SAMPLE_PATH app_config"
    by (rule t[THEN conjunct2])
  have c: "VOICE_SAMPLE_PATH app_config = ''voice-sample.mp3''"
    by (simp add: app_config_def)
  from a b c show ?thesis by metis
qed

text \<open>
  C7 (as stated). For every non-empty sample buffer and valid format triple, decoding
  the encoded container gives the buffer back. Three bytes under two bytes per sample
  come back as two.
\<close>

theorem wav_roundtrip_counterexample:
  "then_do (encode_wav default_config [1, 2, 3]) decode_wav = Inr (24000, 2, 1, [1, 2])
   \<and> then_do (encode_wav default_config [1, 2, 3]) decode_wav \<noteq> Inr (24000, 2, 1, [1, 2, 3])"
proof -
  have len: "36 + int (length [1, 2, 3 :: byte]) < 2 ^ 32" by simp
  note e = encode_wav_ok[OF default_config_valid len]
  note d = decode_wav_ok[OF default_config_valid len]
  show ?thesis
    unfolding e then_do.simps d by (simp add: default_config_format)
qed

text \<open>
  C7 (amended). For every sample buffer \<open>s\<close> that holds a whole number of frames (its
  length is a multiple of \<open>w * c\<close>; the empty buffer included) and is shorter than
  \<open>2^32 - 36\<close> bytes, and every format triple \<open>(r, w, c)\<close> with \<open>1 \<le> w \<le> 4\<close>,
  \<open>1 \<le> c < 2^16\<close>, \<open>0 < r < 2^32\<close>, \<open>c * r * w < 2^32\<close> and \<open>c * w < 2^16\<close> (these
  are \<open>valid_format\<close>, and with the bound on the length they are exactly the inputs on
  which encoding succeeds), decoding the container produced by encoding \<open>s\<close> yields
  back exactly \<open>(r, w, c, s)\<close>.
\<close>

theorem wav_roundtrip_whole_frames:
  assumes "valid_format (sample_rate config) (sample_width config) (channels config)"
    and "36 + int (length s) < 2 ^ 32"
    and "int (length s) mod (channels config * sample_width config) = 0"
  shows "then_do (encode_wav config s) decode_wav
         = Inr (sample_rate config, sample_width config, channels config, s)"
proof -
  have "0 < channels config * sample_width config"
    using assms(1) by (simp add: valid_format_def)
  from whole_frames_take[OF this assms(3)]
  show ?thesis
    by (simp add: encode_wav_ok[OF assms(1,2)] decode_wav_ok[OF assms(1,2)])
qed

theorem wav_roundtrip_whole_frames_witness:
  "then_do (encode_wav default_config [1, 2, 3, 4]) decode_wav = Inr (24000, 2, 1, [1, 2, 3, 4])"
proof -
  have len: "36 + int (length [1, 2, 3, 4 :: byte]) < 2 ^ 32" by simp
  have whole: "int (length [1, 2, 3, 4 :: byte])
                 mod (channels default_config * sample_width default_config) = 0"
    by (simp add: default_config_format)
  from wav_roundtrip_whole_frames[OF default_config_valid len whole]
  show ?thesis by (simp add: default_config_format)
qed


text \<open>
  C8. Two calls of \<^verbatim>\<open>discover_and_import\<close> with no change of the directory between them:
  the second call imports nothing, and a file whose derived name is in the registry
  before the second call is in neither the imported nor the skipped list of that call.
\<close>

theorem discover_twice_imports_nothing:
  "imported (snd (second_discovery exts lang t1 t2 files reg0)) = []
   \<and> (\<forall>f \<in> set files.
         de_stem f \<in> set (registry_names (fst (discover_and_import exts lang t1 files reg0)))
         \<longrightarrow> de_stem f \<notin> set (imported (snd (second_discovery exts lang t1 t2 files reg0)))
           \<and> de_stem f \<notin> set (skipped (snd (second_discovery exts lang t1 t2 files reg0))))"
proof -
  define reg1 where "reg1 = fst (discover_and_import exts lang t1 files reg0)"
  define res2 where "res2 = snd (discover_and_import exts lang t2 files reg1)"
  have cov: "\<forall>f \<in> set files. de_extension f \<in> set exts \<and> de_structurally_valid f
               \<longrightarrow> de_stem f \<in> set (registry_names reg1)"
    unfolding reg1_def discover_and_import_def by (auto intro: discover_scan_covers)
  from discover_scan_fixpoint[OF cov, of lang t2 "\<lparr>imported = [], skipped = []\<rparr>"]
  have "imported res2 = []" by (simp add: res2_def discover_and_import_def)
  moreover have "de_stem f \<notin> set (skipped res2)"
    if "de_stem f \<in> set (registry_names reg1)" for f :: dir_entry
    using discover_scan_known_unreported[OF that, of exts lang t2 files
        "\<lparr>imported = [], skipped = []\<rparr>"]
    by (simp add: res2_def discover_and_import_def)
  ultimately show ?thesis
    by (simp add: second_discovery_def reg1_def[symmetric] res2_def[symmetric])
qed

theorem discover_twice_imports_nothing_witness:
  "imported (snd (discover_and_import audio_extensions ''en'' 1 example_directory empty_registry))
     = [''existing'']
   \<and> imported (snd (second_discovery audio_extensions ''en'' 1 2 example_directory
                      empty_registry)) = []
   \<and> skipped (snd (second_discovery audio_extensions ''en'' 1 2 example_directory
                     empty_registry)) = [''broken'']"
  using discover_twice_imports_nothing[of audio_extensions "''en''" 1 2 example_directory
      empty_registry]
  by (simp add: second_discovery_def discover_and_import_def registry_names_def
      discovered_profile_def audio_extensions_def example_directory_def empty_registry_def)

text \<open>
  C9. Every successful synthesize response consists of exactly three events: one
  stream-start, one stream-chunk and one stream-end, and the payload of the chunk is
  the whole frame buffer decoded from the container.
\<close>

theorem synthesize_response_single_chunk:
  assumes "handle_event config lib cfg model (SynthesizeEvent syn) = Inr (Some evs)"
  shows "\<exists>audio_data rate width chans frames.
           generate_speech config cfg model (syn_text syn)
             (resolve_voice_path lib cfg (requested_voice_name syn)) = Inr audio_data
           \<and> decode_wav audio_data = Inr (rate, width, chans, frames)
           \<and> evs = [AudioStart rate width chans, AudioChunk frames rate width chans, AudioStop]"
proof -
  from assms have "handle_synthesize config lib cfg model syn = Inr evs"
    by (auto dest: then_do_Inr)
  then show ?thesis by (rule handle_synthesize_Inr)
qed

theorem synthesize_response_single_chunk_witness:
  "handle_event default_config no_voices app_config (model_returning [1, 2, 3, 4, 5, 6, 7, 8])
     (SynthesizeEvent say_hello)
   = Inr (Some [AudioStart 24000 2 1, AudioChunk [1, 2, 3, 4, 5, 6, 7, 8] 24000 2 1, AudioStop])
   \<and> (\<exists>audio_data.
         generate_speech default_config app_config (model_returning [1, 2, 3, 4, 5, 6, 7, 8])
           ''hello'' ''voice-sample.mp3'' = Inr audio_data
         \<and> decode_wav audio_data = Inr (24000, 2, 1, [1, 2, 3, 4, 5, 6, 7, 8]))"
proof -
  let ?s = "[1, 2, 3, 4, 5, 6, 7, 8] :: bytes"
  let ?evs = "[AudioStart 24000 2 1, AudioChunk ?s 24000 2 1, AudioStop]"
  have "handle_synthesize default_config no_voices app_config (model_returning ?s) say_hello
        = Inr ?evs"
    using handle_synthesize_ok[OF default_config_valid, of ?s "model_returning ?s" say_hello
        no_voices app_config]
    by (simp add: default_config_format model_returning_def)
  then have h: "handle_event default_config no_voices app_config (model_returning ?s)
                  (SynthesizeEvent say_hello) = Inr (Some ?evs)"
    by simp
  have p: "resolve_voice_path no_voices app_config (requested_voice_name say_hello)
           = ''voice-sample.mp3''"
    by (simp add: resolve_voice_path_def requested_voice_name_def say_hello_def no_voices_def
        app_config_def)
  have t: "syn_text say_hello = ''hello''" by (simp add: say_hello_def)
  from synthesize_response_single_chunk[OF h] h show ?thesis
    unfolding p t by auto
qed

text \<open>
  C10 (on the code). The description is to begin with an entry named "default",
  followed by one entry per registry voice. \<^verbatim>\<open>_create_info\<close> builds that first entry
  with \<^verbatim>\<open>TtsVoice(name=, description=, installed=)\<close>, which leaves out the
  \<^verbatim>\<open>attribution\<close> and \<^verbatim>\<open>languages\<close> the dataclass requires: for every voice library
  the call raises \<^verbatim>\<open>TypeError\<close>, no description is built, and the constructor of the
  server raises with it, whatever the base class.
\<close>

theorem create_info_raises:
  "create_info lib = Inl TypeError
   \<and> ChatterboxWyomingServer_init super_init config lib = Inl TypeError"
  by (simp add: create_info_def ChatterboxWyomingServer_init_def TtsVoice_init_def)

end
